theory Spec2Isabelle
  imports Main
begin

section \<open>Configuration (class WebAutomationConfig) and selector constants\<close>

text \<open>All durations are milliseconds, as in the source.\<close>

definition DEFAULT_TIMEOUT :: int where "DEFAULT_TIMEOUT = 30000"
definition SHORT_TIMEOUT :: int where "SHORT_TIMEOUT = 10000"
definition LONG_TIMEOUT :: int where "LONG_TIMEOUT = 60000"
definition RETRY_COUNT :: int where "RETRY_COUNT = 3"
definition RETRY_DELAY :: int where "RETRY_DELAY = 2000"
definition ELEMENT_STABILITY_TIMEOUT :: int where "ELEMENT_STABILITY_TIMEOUT = 1000"

section \<open>The browser as an environment\<close>

text \<open>
  The automation engine (Botright/Playwright) is outside the repository. Every awaited call
  on it either returns a value or raises; the outcome of a call is an input of the model:
  \<open>Inl e\<close> is \<open>raise e\<close>, \<open>Inr v\<close> is a normal return of \<open>v\<close>.
  The calls a function makes are recorded, in program order, as a list of events.
  \<open>page.wait_for_timeout\<close> is a timer and is modelled as always returning.
\<close>

type_synonym selector = string
text \<open>
  Exceptions: a plain \<open>Exception(msg)\<close> (also standing for the engine's own errors), and
  \<open>AgentTimeoutException(agent_name, timeout_seconds, message)\<close>, which the callers tell
  apart with \<open>isinstance\<close>.
\<close>

datatype exn = Exception string | AgentTimeoutException string int string

type_synonym 'a outcome = "exn + 'a"

datatype resource = Page | Browser | Client

datatype event =
    EWaitSelector selector string int
  | EQuery selector
  | EQueryAll selector
  | EIsVisible selector
  | EIsEnabled selector
  | EScroll selector
  | ETimeout int
  | EClick selector
  | EJsClick selector
  | EFocus selector
  | ESelectText selector
  | EPress string
  | EFill selector string
  | EInputValue selector
  | EGetAttribute selector string
  | EInnerText selector
  | ETextContent selector
  | EGoto string
  | ELoadState string
  | ENew resource
  | EClose resource
  | ESolveCaptcha string
  | EReadOutputFile

text \<open>A computation that may raise and that logs the calls it made, also when it raises.\<close>

type_synonym 'a act = "'a outcome \<times> event list"

definition ret :: "'a \<Rightarrow> 'a act" where
  "ret x = (Inr x, [])"

definition raise :: "exn \<Rightarrow> 'a act" where
  "raise e = (Inl e, [])"

definition call :: "event \<Rightarrow> 'a outcome \<Rightarrow> 'a act" where
  "call ev out = (out, [ev])"

definition thn :: "'a act \<Rightarrow> ('a \<Rightarrow> 'b act) \<Rightarrow> 'b act" where
  "thn m f = (case m of
      (Inl e, t) \<Rightarrow> (Inl e, t)
    | (Inr x, t) \<Rightarrow> (case f x of (r, t') \<Rightarrow> (r, t @ t')))"

text \<open>\<open>try: m except Exception as e: h e\<close>\<close>

definition catch :: "'a act \<Rightarrow> (exn \<Rightarrow> 'a act) \<Rightarrow> 'a act" where
  "catch m h = (case m of
      (Inl e, t) \<Rightarrow> (case h e of (r, t') \<Rightarrow> (r, t @ t'))
    | (Inr x, t) \<Rightarrow> (Inr x, t))"

definition sleep :: "int \<Rightarrow> unit act" where
  "sleep ms = call (ETimeout ms) (Inr ())"

section \<open>The agent object (class WebAgent, \<open>__init__\<close>)\<close>

text \<open>
  A handle stands for a live object of the engine; what its \<open>close()\<close> does is part of the
  environment. \<open>None\<close> is Python's \<open>None\<close>.
\<close>

record handle =
  hid :: nat
  close_result :: "unit outcome"

record agent =
  botright_client :: "handle option"
  browser :: "handle option"
  page :: "handle option"
  is_browser_ready :: bool
  repo_url :: "string option"

definition init_agent :: agent where
  "init_agent = \<lparr> botright_client = None, browser = None, page = None,
                   is_browser_ready = False, repo_url = None \<rparr>"

section \<open>Browser lifecycle: \<open>_cleanup_browser\<close>, \<open>close_coding_interface\<close>\<close>

text \<open>
  \<open>_cleanup_browser\<close> runs one \<open>try\<close> block: the ready flag is cleared first, then each
  handle that is set is closed and cleared. A \<open>close()\<close> that raises leaves the block: the
  handles not yet reached stay as they are, and the exception is printed, not re-raised.
  The three steps below return \<open>Inl\<close> with the state reached when their \<open>close()\<close> raised.
\<close>

definition cleanup_page :: "agent \<Rightarrow> (agent + agent) \<times> event list" where
  "cleanup_page ag = (case page ag of
      None \<Rightarrow> (Inr ag, [])
    | Some p \<Rightarrow> (case close_result p of
          Inl e \<Rightarrow> (Inl ag, [EClose Page])
        | Inr u \<Rightarrow> (Inr (ag\<lparr>page := None\<rparr>), [EClose Page])))"

definition cleanup_browser_handle :: "agent \<Rightarrow> (agent + agent) \<times> event list" where
  "cleanup_browser_handle ag = (case browser ag of
      None \<Rightarrow> (Inr ag, [])
    | Some b \<Rightarrow> (case close_result b of
          Inl e \<Rightarrow> (Inl ag, [EClose Browser])
        | Inr u \<Rightarrow> (Inr (ag\<lparr>browser := None\<rparr>), [EClose Browser])))"

definition cleanup_client :: "agent \<Rightarrow> (agent + agent) \<times> event list" where
  "cleanup_client ag = (case botright_client ag of
      None \<Rightarrow> (Inr ag, [])
    | Some c \<Rightarrow> (case close_result c of
          Inl e \<Rightarrow> (Inl ag, [EClose Client])
        | Inr u \<Rightarrow> (Inr (ag\<lparr>botright_client := None\<rparr>), [EClose Client])))"

definition cleanup_browser :: "agent \<Rightarrow> agent \<times> event list" where
  "cleanup_browser ag =
     (case cleanup_page (ag\<lparr>is_browser_ready := False\<rparr>) of
        (Inl ag1, t1) \<Rightarrow> (ag1, t1)
      | (Inr ag1, t1) \<Rightarrow>
          (case cleanup_browser_handle ag1 of
             (Inl ag2, t2) \<Rightarrow> (ag2, t1 @ t2)
           | (Inr ag2, t2) \<Rightarrow>
               (case cleanup_client ag2 of
                  (Inl ag3, t3) \<Rightarrow> (ag3, t1 @ t2 @ t3)
                | (Inr ag3, t3) \<Rightarrow> (ag3, t1 @ t2 @ t3))))"

text \<open>
  \<open>close_coding_interface\<close>: \<open>_cleanup_browser\<close> never raises (it catches every
  \<open>Exception\<close>), so the \<open>except\<close> branch that returns \<open>False\<close> is never taken.
\<close>

definition close_coding_interface :: "agent \<Rightarrow> bool \<times> agent \<times> event list" where
  "close_coding_interface ag = (case cleanup_browser ag of (ag', t) \<Rightarrow> (True, ag', t))"

text \<open>Every handle that is set closes without raising.\<close>

definition closes_cleanly :: "agent \<Rightarrow> bool" where
  "closes_cleanly ag =
     ((case page ag of None \<Rightarrow> True | Some h \<Rightarrow> close_result h = Inr ()) \<and>
      (case browser ag of None \<Rightarrow> True | Some h \<Rightarrow> close_result h = Inr ()) \<and>
      (case botright_client ag of None \<Rightarrow> True | Some h \<Rightarrow> close_result h = Inr ()))"

definition released :: "agent \<Rightarrow> bool" where
  "released ag = (page ag = None \<and> browser ag = None \<and> botright_client ag = None
                  \<and> \<not> is_browser_ready ag)"

section \<open>Elements and what one attempt observes\<close>

text \<open>
  An element handle returned by \<open>page.query_selector\<close>: the outcome of each method the
  agents call on it. \<open>el_input_value t\<close> is what \<open>input_value()\<close> reads after \<open>fill(t)\<close>.
\<close>

record element =
  el_is_visible :: "bool outcome"
  el_is_enabled :: "bool outcome"
  el_scroll :: "unit outcome"
  el_click :: "unit outcome"
  el_js_click :: "unit outcome"
  el_focus :: "unit outcome"
  el_select_text :: "unit outcome"
  el_fill :: "string \<Rightarrow> unit outcome"
  el_input_value :: "string \<Rightarrow> string outcome"
  el_href :: "string option outcome"
  el_inner_text :: "string option outcome"
  el_text_content :: "string option outcome"

text \<open>
  What the page does during one attempt on a selector: the outcome of
  \<open>wait_for_selector(selector, state="visible")\<close>, of \<open>query_selector(selector)\<close> and of
  \<open>keyboard.press("Delete")\<close>.
\<close>

record sel_obs =
  wait_result :: "unit outcome"
  query_result :: "element option outcome"
  key_press :: "unit outcome"

text \<open>\<open>await element.is_visible() and await element.is_enabled()\<close> (short-circuit).\<close>

definition is_actionable :: "element \<Rightarrow> selector \<Rightarrow> bool act" where
  "is_actionable el sel =
     thn (call (EIsVisible sel) (el_is_visible el)) (\<lambda>v.
       if v then call (EIsEnabled sel) (el_is_enabled el) else ret False)"

section \<open>\<open>_robust_navigate\<close>\<close>

text \<open>\<open>max_retries or self.config.RETRY_COUNT\<close>: \<open>None\<close> and \<open>0\<close> are falsy.\<close>

definition effective_retries :: "int option \<Rightarrow> int" where
  "effective_retries mr = (case mr of None \<Rightarrow> RETRY_COUNT
                           | Some k \<Rightarrow> if k = 0 then RETRY_COUNT else k)"

function navigate_loop :: "agent \<Rightarrow> (nat \<Rightarrow> unit outcome) \<Rightarrow> string \<Rightarrow> int \<Rightarrow> nat
                           \<Rightarrow> bool \<times> event list" where
  "navigate_loop ag env url max_retries attempt =
     (if int attempt < max_retries then
        (case call (EGoto url) (env attempt) of
           (Inr u, t) \<Rightarrow> (True, t)
         | (Inl e, t) \<Rightarrow>
             if int attempt < max_retries - 1 \<and> page ag \<noteq> None then
               (case navigate_loop ag env url max_retries (Suc attempt) of
                  (r, t') \<Rightarrow> (r, t @ [ETimeout RETRY_DELAY] @ t'))
             else (False, t))
      else (False, []))"
  by pat_completeness auto
termination
  by (relation "measure (\<lambda>(ag, env, url, m, a). nat (m - int a))") auto

definition robust_navigate :: "agent \<Rightarrow> (nat \<Rightarrow> unit outcome) \<Rightarrow> string \<Rightarrow> int option
                             \<Rightarrow> bool \<times> event list" where
  "robust_navigate ag env url mr =
     (if page ag = None then (False, [])
      else navigate_loop ag env url (effective_retries mr) 0)"

section \<open>\<open>open_coding_interface\<close>\<close>

text \<open>
  The environment of one \<open>open_coding_interface\<close>: what creating the client, the browser
  and the page returns, and what each \<open>page.goto\<close> does. \<open>_setup_web_interface\<close> is the hook
  subclasses override; it is a parameter here, run on the agent as it is after navigation.
\<close>

record open_env =
  new_client :: "handle outcome"
  new_browser :: "handle outcome"
  new_page :: "handle outcome"
  goto_result :: "nat \<Rightarrow> unit outcome"

definition ensure_client :: "agent \<Rightarrow> open_env \<Rightarrow> agent act" where
  "ensure_client ag env =
     (if botright_client ag = None then
        thn (call (ENew Client) (new_client env)) (\<lambda>c. ret (ag\<lparr>botright_client := Some c\<rparr>))
      else ret ag)"

definition ensure_browser :: "agent \<Rightarrow> open_env \<Rightarrow> agent act" where
  "ensure_browser ag env =
     (if browser ag = None then
        thn (call (ENew Browser) (new_browser env)) (\<lambda>b. ret (ag\<lparr>browser := Some b\<rparr>))
      else ret ag)"

text \<open>The \<open>except\<close> branch: \<open>_cleanup_browser()\<close>, then \<open>return False\<close>.\<close>

definition open_failed :: "agent \<Rightarrow> event list \<Rightarrow> bool \<times> agent \<times> event list" where
  "open_failed ag t = (case cleanup_browser ag of (ag', tc) \<Rightarrow> (False, ag', t @ tc))"

definition open_coding_interface ::
    "agent \<Rightarrow> open_env \<Rightarrow> string \<Rightarrow> (agent \<Rightarrow> bool act) \<Rightarrow> bool \<times> agent \<times> event list" where
  "open_coding_interface ag env web_url setup =
     (case ensure_client ag env of
        (Inl e, t1) \<Rightarrow> open_failed ag t1
      | (Inr ag1, t1) \<Rightarrow>
     (case ensure_browser ag1 env of
        (Inl e, t2) \<Rightarrow> open_failed ag1 (t1 @ t2)
      | (Inr ag2, t2) \<Rightarrow>
     (case call (ENew Page) (new_page env) of
        (Inl e, t3) \<Rightarrow> open_failed ag2 (t1 @ t2 @ t3)
      | (Inr p, t3) \<Rightarrow>
     (let ag3 = ag2\<lparr>page := Some p\<rparr> in
      case robust_navigate ag3 (goto_result env) web_url None of
        (navigation_success, t4) \<Rightarrow>
          if \<not> navigation_success then (False, ag3, t1 @ t2 @ t3 @ t4)
          else
            (case setup ag3 of
               (Inl e, t5) \<Rightarrow> open_failed ag3 (t1 @ t2 @ t3 @ t4 @ t5)
             | (Inr setup_success, t5) \<Rightarrow>
                 if \<not> setup_success then (False, ag3, t1 @ t2 @ t3 @ t4 @ t5)
                 else (True, ag3\<lparr>is_browser_ready := True\<rparr>, t1 @ t2 @ t3 @ t4 @ t5))))))"

section \<open>\<open>_robust_click_element\<close>\<close>

text \<open>
  The body of the \<open>try\<close> of one attempt. \<open>self.page\<close> was tested at the top of the
  attempt and nothing in between assigns it, so the later \<open>if self.page:\<close> holds.
\<close>

definition click_attempt :: "agent \<Rightarrow> sel_obs \<Rightarrow> selector \<Rightarrow> string \<Rightarrow> bool act" where
  "click_attempt ag ob sel description =
     (if page ag = None then raise (Exception ''Page not available'')
      else
        thn (call (EWaitSelector sel ''visible'' DEFAULT_TIMEOUT) (wait_result ob)) (\<lambda>u.
        thn (call (EQuery sel) (query_result ob)) (\<lambda>element.
        case element of
          None \<Rightarrow> raise (Exception (''Element not found: '' @ sel))
        | Some el \<Rightarrow>
            thn (is_actionable el sel) (\<lambda>a.
            if a then
              thn (call (EScroll sel) (el_scroll el)) (\<lambda>u.
              thn (sleep ELEMENT_STABILITY_TIMEOUT) (\<lambda>u.
              thn (call (EClick sel) (el_click el)) (\<lambda>u.
              ret True)))
            else raise (Exception (''Element not actionable: '' @ description))))))"

function robust_click_loop :: "agent \<Rightarrow> (nat \<Rightarrow> sel_obs) \<Rightarrow> selector \<Rightarrow> string \<Rightarrow> int \<Rightarrow> nat
                               \<Rightarrow> bool \<times> event list" where
  "robust_click_loop ag env sel description max_retries attempt =
     (if int attempt < max_retries then
        (case click_attempt ag (env attempt) sel description of
           (Inr r, t) \<Rightarrow> (r, t)
         | (Inl e, t) \<Rightarrow>
             if int attempt < max_retries - 1 \<and> page ag \<noteq> None then
               (case robust_click_loop ag env sel description max_retries (Suc attempt) of
                  (r, t') \<Rightarrow> (r, t @ [ETimeout RETRY_DELAY] @ t'))
             else (False, t))
      else (False, []))"
  by pat_completeness auto
termination
  by (relation "measure (\<lambda>(ag, env, sel, d, m, a). nat (m - int a))") auto

definition robust_click_element ::
    "agent \<Rightarrow> (nat \<Rightarrow> sel_obs) \<Rightarrow> selector \<Rightarrow> string \<Rightarrow> int option \<Rightarrow> bool \<times> event list" where
  "robust_click_element ag env sel description mr =
     robust_click_loop ag env sel description (effective_retries mr) 0"

section \<open>\<open>_robust_fill_input\<close>\<close>

definition fill_attempt :: "agent \<Rightarrow> sel_obs \<Rightarrow> selector \<Rightarrow> string \<Rightarrow> bool act" where
  "fill_attempt ag ob sel text =
     (if page ag = None then raise (Exception ''Page not available'')
      else
        thn (call (EWaitSelector sel ''visible'' DEFAULT_TIMEOUT) (wait_result ob)) (\<lambda>u.
        thn (call (EQuery sel) (query_result ob)) (\<lambda>input_element.
        case input_element of
          None \<Rightarrow> raise (Exception (''Input element not found: '' @ sel))
        | Some el \<Rightarrow>
            thn (is_actionable el sel) (\<lambda>a.
            if a then
              thn (call (EFocus sel) (el_focus el)) (\<lambda>u.
              thn (call (ESelectText sel) (el_select_text el)) (\<lambda>u.
              thn (call (EPress ''Delete'') (key_press ob)) (\<lambda>u.
              thn (call (EFill sel text) (el_fill el text)) (\<lambda>u.
              thn (call (EInputValue sel) (el_input_value el text)) (\<lambda>current_value.
              if current_value = text then ret True
              else raise (Exception (''Text verification failed. Expected: '' @ take 50 text
                          @ ''..., Got: '' @ take 50 current_value @ ''...'')))))))
            else raise (Exception ''Input element not actionable'')))))"

function robust_fill_loop :: "agent \<Rightarrow> (nat \<Rightarrow> sel_obs) \<Rightarrow> selector \<Rightarrow> string \<Rightarrow> int \<Rightarrow> nat
                              \<Rightarrow> bool \<times> event list" where
  "robust_fill_loop ag env sel text max_retries attempt =
     (if int attempt < max_retries then
        (case fill_attempt ag (env attempt) sel text of
           (Inr r, t) \<Rightarrow> (r, t)
         | (Inl e, t) \<Rightarrow>
             if int attempt < max_retries - 1 \<and> page ag \<noteq> None then
               (case robust_fill_loop ag env sel text max_retries (Suc attempt) of
                  (r, t') \<Rightarrow> (r, t @ [ETimeout RETRY_DELAY] @ t'))
             else (False, t))
      else (False, []))"
  by pat_completeness auto
termination
  by (relation "measure (\<lambda>(ag, env, sel, d, m, a). nat (m - int a))") auto

definition robust_fill_input ::
    "agent \<Rightarrow> (nat \<Rightarrow> sel_obs) \<Rightarrow> selector \<Rightarrow> string \<Rightarrow> int option \<Rightarrow> bool \<times> event list" where
  "robust_fill_input ag env sel text mr =
     robust_fill_loop ag env sel text (effective_retries mr) 0"

text \<open>
  An attempt finds its element actionable when the wait for visibility returns and the
  queried element reports itself visible and enabled.
\<close>

definition actionable_obs :: "sel_obs \<Rightarrow> bool" where
  "actionable_obs ob =
     (wait_result ob = Inr () \<and>
      (case query_result ob of
         Inr (Some el) \<Rightarrow> el_is_visible el = Inr True \<and> el_is_enabled el = Inr True
       | _ \<Rightarrow> False))"

text \<open>Reading a trace: attempts started, and retry delays waited.\<close>

fun is_wait_selector :: "event \<Rightarrow> bool" where
  "is_wait_selector (EWaitSelector s st ms) = True"
| "is_wait_selector e = False"

definition attempts_made :: "event list \<Rightarrow> nat" where
  "attempts_made t = length (filter is_wait_selector t)"

definition retry_delays :: "event list \<Rightarrow> nat" where
  "retry_delays t = length (filter (\<lambda>e. e = ETimeout RETRY_DELAY) t)"

text \<open>
  The trace of \<open>n\<close> attempts that all failed: attempt \<open>i\<close> made the calls \<open>att i\<close>, and
  \<open>wait_for_timeout(RETRY_DELAY)\<close> follows every attempt but the last.
\<close>

definition interleaved :: "(nat \<Rightarrow> event list) \<Rightarrow> int \<Rightarrow> event list" where
  "interleaved att n =
     concat (map (\<lambda>i. att i @ (if int i < n - 1 then [ETimeout RETRY_DELAY] else []))
                 [0..<nat n])"

text \<open>
  An attempt of \<open>_robust_fill_input\<close> on which every call up to the read-back returns:
  the element is actionable and focus, select, Delete and fill go through.
\<close>

definition fill_reaches_readback :: "sel_obs \<Rightarrow> string \<Rightarrow> bool" where
  "fill_reaches_readback ob text =
     (actionable_obs ob \<and> key_press ob = Inr () \<and>
      (case query_result ob of
         Inr (Some el) \<Rightarrow> el_focus el = Inr () \<and> el_select_text el = Inr ()
                          \<and> el_fill el text = Inr ()
       | _ \<Rightarrow> False))"

definition readback :: "sel_obs \<Rightarrow> string \<Rightarrow> string outcome" where
  "readback ob text = (case query_result ob of
       Inr (Some el) \<Rightarrow> el_input_value el text
     | _ \<Rightarrow> Inl (Exception ''no element''))"

definition readback_matches :: "sel_obs \<Rightarrow> string \<Rightarrow> bool" where
  "readback_matches ob text = (fill_reaches_readback ob text \<and> readback ob text = Inr text)"

definition readback_differs :: "sel_obs \<Rightarrow> string \<Rightarrow> bool" where
  "readback_differs ob text =
     (fill_reaches_readback ob text \<and>
      (case readback ob text of Inr v \<Rightarrow> v \<noteq> text | Inl e \<Rightarrow> False))"

text \<open>The calls of a fill attempt that reaches the read-back.\<close>

definition fill_calls :: "selector \<Rightarrow> string \<Rightarrow> event list" where
  "fill_calls sel text =
     [EWaitSelector sel ''visible'' DEFAULT_TIMEOUT, EQuery sel, EIsVisible sel, EIsEnabled sel,
      EFocus sel, ESelectText sel, EPress ''Delete'', EFill sel text, EInputValue sel]"

section \<open>\<open>_scroll_and_click\<close> (class OpenAICodexAgent)\<close>

text \<open>
  One shot, no retry loop. \<open>self.page.wait_for_timeout\<close> on a page that is \<open>None\<close> raises
  (an attribute of \<open>None\<close>); every exception is printed by the outer \<open>except\<close> and the
  function returns \<open>None\<close> in all cases.
\<close>

definition scroll_and_click :: "agent \<Rightarrow> element \<Rightarrow> selector \<Rightarrow> string \<Rightarrow> unit act" where
  "scroll_and_click ag el sel description =
     catch
       (thn (call (EScroll sel) (el_scroll el)) (\<lambda>u.
        thn (if page ag = None then raise (Exception ''NoneType has no attribute wait_for_timeout'')
             else sleep ELEMENT_STABILITY_TIMEOUT) (\<lambda>u.
        thn (is_actionable el sel) (\<lambda>a.
        if a then
          catch (call (EClick sel) (el_click el))
                (\<lambda>e. call (EJsClick sel) (el_js_click el))
        else raise (Exception (''Element '' @ description @ '' not actionable after scrolling''))))))
       (\<lambda>e. ret ())"

section \<open>Concrete sessions used to evaluate the model\<close>

definition live_handle :: "nat \<Rightarrow> handle" where
  "live_handle k = \<lparr> hid = k, close_result = Inr () \<rparr>"

definition open_agent :: agent where
  "open_agent = \<lparr> botright_client = Some (live_handle 1), browser = Some (live_handle 2),
                   page = Some (live_handle 3), is_browser_ready = True, repo_url = None \<rparr>"

text \<open>An element on which every call returns; \<open>input_value\<close> reads back what was filled.\<close>

definition good_element :: element where
  "good_element = \<lparr> el_is_visible = Inr True, el_is_enabled = Inr True, el_scroll = Inr (),
      el_click = Inr (), el_js_click = Inr (), el_focus = Inr (), el_select_text = Inr (),
      el_fill = (\<lambda>t. Inr ()), el_input_value = (\<lambda>t. Inr t), el_href = Inr None,
      el_inner_text = Inr None, el_text_content = Inr None \<rparr>"

definition found :: "element \<Rightarrow> sel_obs" where
  "found el = \<lparr> wait_result = Inr (), query_result = Inr (Some el), key_press = Inr () \<rparr>"

definition never_visible :: sel_obs where
  "never_visible = \<lparr> wait_result = Inl (Exception ''Timeout 30000ms exceeded''), query_result = Inr None,
                      key_press = Inr () \<rparr>"

definition disabled_element :: element where
  "disabled_element = good_element\<lparr> el_is_enabled := Inr False \<rparr>"

definition intercepted_element :: element where
  "intercepted_element = good_element\<lparr> el_click := Inl (Exception ''subtree intercepts pointer events'') \<rparr>"

definition garbling_element :: element where
  "garbling_element = good_element\<lparr> el_input_value := (\<lambda>t. Inr (t @ ''x'')) \<rparr>"

definition failing_open_env :: open_env where
  "failing_open_env = \<lparr> new_client = Inr (live_handle 1), new_browser = Inr (live_handle 2),
      new_page = Inr (live_handle 3), goto_result = (\<lambda>i. Inl (Exception ''net::ERR_NAME_NOT_RESOLVED'')) \<rparr>"

definition working_open_env :: open_env where
  "working_open_env = \<lparr> new_client = Inr (live_handle 1), new_browser = Inr (live_handle 2),
      new_page = Inr (live_handle 3), goto_result = (\<lambda>i. Inr ()) \<rparr>"

text \<open>The calls of a click attempt whose \<open>click()\<close> is reached.\<close>

definition click_calls :: "selector \<Rightarrow> event list" where
  "click_calls sel =
     [EWaitSelector sel ''visible'' DEFAULT_TIMEOUT, EQuery sel, EIsVisible sel, EIsEnabled sel,
      EScroll sel, ETimeout ELEMENT_STABILITY_TIMEOUT, EClick sel]"

definition click_raises :: "sel_obs \<Rightarrow> bool" where
  "click_raises ob =
     (actionable_obs ob \<and>
      (case query_result ob of
         Inr (Some el) \<Rightarrow> el_scroll el = Inr () \<and> isl (el_click el)
       | _ \<Rightarrow> False))"

section \<open>Python strings\<close>

text \<open>
  \<open>str.strip()\<close> removes the whitespace characters of \<open>str.isspace\<close>, here those below
  code point 256; \<open>sub in s\<close> is \<open>contains sub s\<close>.
\<close>

definition is_space :: "char \<Rightarrow> bool" where
  "is_space c = (c \<in> set [CHR '' '', CHR 0x09, CHR 0x0A, CHR 0x0B, CHR 0x0C, CHR 0x0D,
                            CHR 0x1C, CHR 0x1D, CHR 0x1E, CHR 0x1F, CHR 0x85, CHR 0xA0])"

definition strip :: "string \<Rightarrow> string" where
  "strip s = rev (dropWhile is_space (rev (dropWhile is_space s)))"

fun starts_with :: "string \<Rightarrow> string \<Rightarrow> bool" where
  "starts_with [] s = True"
| "starts_with (p # ps) [] = False"
| "starts_with (p # ps) (c # cs) = (p = c \<and> starts_with ps cs)"

fun contains :: "string \<Rightarrow> string \<Rightarrow> bool" where
  "contains sub [] = (sub = [])"
| "contains sub (c # cs) = (starts_with sub (c # cs) \<or> contains sub cs)"

text \<open>\<open>sep.join(parts)\<close>\<close>

fun join :: "string \<Rightarrow> string list \<Rightarrow> string" where
  "join sep [] = []"
| "join sep [p] = p"
| "join sep (p # q # ps) = p @ sep @ join sep (q # ps)"

section \<open>Waiting helpers of class WebAgent\<close>

text \<open>\<open>timeout = timeout or self.config.DEFAULT_TIMEOUT\<close>\<close>

definition effective_timeout :: "int option \<Rightarrow> int" where
  "effective_timeout t = (case t of None \<Rightarrow> DEFAULT_TIMEOUT
                          | Some k \<Rightarrow> if k = 0 then DEFAULT_TIMEOUT else k)"

text \<open>
  \<open>self.page.m(...)\<close> where the code does not test \<open>self.page\<close> first: on \<open>None\<close> the
  attribute access raises.
\<close>

definition on_page :: "agent \<Rightarrow> 'a act \<Rightarrow> 'a act" where
  "on_page ag m = (if page ag = None
                   then raise (Exception ''NoneType object has no attribute'') else m)"

text \<open>\<open>_wait_for_element_robust\<close>: \<open>out\<close> is what \<open>page.wait_for_selector\<close> does.\<close>

definition wait_for_element_robust ::
    "agent \<Rightarrow> unit outcome \<Rightarrow> selector \<Rightarrow> int option \<Rightarrow> string \<Rightarrow> bool act" where
  "wait_for_element_robust ag out sel timeout state =
     catch
       (if page ag = None then ret False
        else thn (call (EWaitSelector sel state (effective_timeout timeout)) out) (\<lambda>u. ret True))
       (\<lambda>e. ret False)"

text \<open>\<open>_get_element_robust\<close>\<close>

definition get_element_robust ::
    "agent \<Rightarrow> sel_obs \<Rightarrow> selector \<Rightarrow> int option \<Rightarrow> element option act" where
  "get_element_robust ag ob sel timeout =
     catch
       (if page ag = None then ret None
        else
          thn (call (EWaitSelector sel ''visible'' (effective_timeout timeout)) (wait_result ob)) (\<lambda>u.
          thn (call (EQuery sel) (query_result ob)) (\<lambda>element. ret element)))
       (\<lambda>e. ret None)"

section \<open>\<open>_monitor_output_changes\<close>: completion by content stability\<close>

text \<open>
  What a subclass of \<open>WebAgent\<close> and the configuration supply. \<open>timeout_text\<close> is \<open>str()\<close>
  of an \<open>AgentTimeoutException\<close>, a class defined outside these sources.
\<close>

record web_config =
  agent_name :: string
  input_selector :: selector
  submit_selector :: selector
  output_selector :: selector
  loading_selector :: "selector option"
  output_file :: string
  agent_timeout_seconds :: int
  timeout_text :: "string \<Rightarrow> int \<Rightarrow> string \<Rightarrow> string"

definition exn_str :: "web_config \<Rightarrow> exn \<Rightarrow> string" where
  "exn_str cfg e = (case e of Exception msg \<Rightarrow> msg
                    | AgentTimeoutException a s m \<Rightarrow> timeout_text cfg a s m)"

text \<open>
  The clock \<open>time.time() * 1000\<close> is kept in the state, in milliseconds. It starts at
  \<open>clock_start\<close> and moves on by what the page calls of poll \<open>i\<close> took (\<open>query_ms i\<close>), by
  the time between the two readings of a poll that saw a change (\<open>read_gap_ms i\<close>), and by
  each \<open>wait_for_timeout(5000)\<close>, which lasts 5000 ms and \<open>lag_ms i\<close> more.
  \<open>poll_query i\<close> is what \<open>query_selector(output_selector)\<close> does at poll \<open>i\<close>.
\<close>

record monitor_env =
  clock_start :: int
  poll_query :: "nat \<Rightarrow> element option outcome"
  query_ms :: "nat \<Rightarrow> nat"
  read_gap_ms :: "nat \<Rightarrow> nat"
  lag_ms :: "nat \<Rightarrow> nat"

text \<open>
  The locals of the loop. \<open>samples\<close> is not in the source: it records each content the
  loop read, with the clock reading that followed, newest first.
\<close>

record mon_state =
  now :: int
  last_content :: string
  last_change_time :: int
  polls :: nat
  samples :: "(int \<times> string) list"

definition check_interval_ms :: int where "check_interval_ms = 5000"
definition stable_content_duration_ms :: int where "stable_content_duration_ms = 10000"

text \<open>Reading the output area: \<open>await output_element.text_content() or ""\<close>.\<close>

definition read_output :: "selector \<Rightarrow> element option outcome \<Rightarrow> string act" where
  "read_output sel q =
     thn (call (EQuery sel) q) (\<lambda>output_element.
       case output_element of
         None \<Rightarrow> ret ''''
       | Some el \<Rightarrow>
           thn (call (ETextContent sel) (el_text_content el)) (\<lambda>c.
             ret (case c of None \<Rightarrow> '''' | Some s \<Rightarrow> s)))"

datatype poll_result = Completed mon_state | Again mon_state

text \<open>
  One pass of the \<open>while\<close> body with \<open>self.page\<close> set: the \<open>try\<close> block, whose \<open>return\<close>
  is \<open>Completed\<close>, and the \<open>except\<close> block; both other ways out end with the 5 s wait.
\<close>

definition monitor_poll :: "web_config \<Rightarrow> monitor_env \<Rightarrow> mon_state \<Rightarrow> poll_result \<times> event list" where
  "monitor_poll cfg env st =
     (let i = polls st;
          t1 = now st + int (query_ms env i);
          after_wait = (\<lambda>t. t + check_interval_ms + int (lag_ms env i))
      in case read_output (output_selector cfg) (poll_query env i) of
           (Inl e, t) \<Rightarrow>
             (Again (st\<lparr>now := after_wait t1, polls := Suc i\<rparr>), t @ [ETimeout check_interval_ms])
         | (Inr current_content, t) \<Rightarrow>
             (let changed = (current_content \<noteq> last_content st);
                  lct = (if changed then t1 else last_change_time st);
                  current_time = (if changed then t1 + int (read_gap_ms env i) else t1);
                  st1 = st\<lparr>now := current_time,
                           last_content := (if changed then current_content else last_content st),
                           last_change_time := lct,
                           samples := (t1, current_content) # samples st\<rparr>
              in if current_time - lct \<ge> stable_content_duration_ms \<and> length current_content > 100
                 then (Completed st1, t)
                 else (Again (st1\<lparr>now := after_wait current_time, polls := Suc i\<rparr>),
                       t @ [ETimeout check_interval_ms])))"

text \<open>\<open>int(timeout_ms / 1000)\<close> truncates towards zero.\<close>

definition timeout_seconds_of :: "int \<Rightarrow> int" where
  "timeout_seconds_of timeout_ms =
     (if timeout_ms \<ge> 0 then timeout_ms div 1000 else - ((- timeout_ms) div 1000))"

definition timed_out :: "web_config \<Rightarrow> int \<Rightarrow> exn" where
  "timed_out cfg timeout_ms =
     AgentTimeoutException (agent_name cfg) (timeout_seconds_of timeout_ms)
       ''Web agent processing timed out''"

lemma monitor_poll_advances:
  "monitor_poll cfg env st = (Again st', t) \<Longrightarrow> now st + 5000 \<le> now st'"
  by (auto simp: monitor_poll_def Let_def check_interval_ms_def
      split: prod.splits sum.splits if_splits)

function monitor_loop :: "web_config \<Rightarrow> monitor_env \<Rightarrow> int \<Rightarrow> mon_state
                          \<Rightarrow> mon_state outcome \<times> event list" where
  "monitor_loop cfg env timeout_ms st =
     (if now st - clock_start env < timeout_ms then
        (case monitor_poll cfg env st of
           (Completed st', t) \<Rightarrow> (Inr st', t)
         | (Again st', t) \<Rightarrow>
             (case monitor_loop cfg env timeout_ms st' of (r, t') \<Rightarrow> (r, t @ t')))
      else (Inl (timed_out cfg timeout_ms), []))"
  by pat_completeness auto

termination
proof (relation "measure (\<lambda>(cfg, env, timeout_ms, st). nat (timeout_ms - (now st - clock_start env)))")
  show "wf (measure (\<lambda>(cfg, env, timeout_ms, st). nat (timeout_ms - (now st - clock_start env))))"
    by simp
next
  fix cfg env timeout_ms st x y st'
  assume "now st - clock_start env < timeout_ms" and "(x, y) = monitor_poll cfg env st"
    and "x = Again st'"
  then have "now st + 5000 \<le> now st'" using monitor_poll_advances [of cfg env st st' y] by simp
  with \<open>now st - clock_start env < timeout_ms\<close>
  show "((cfg, env, timeout_ms, st'), (cfg, env, timeout_ms, st))
        \<in> measure (\<lambda>(cfg, env, timeout_ms, st). nat (timeout_ms - (now st - clock_start env)))"
    by simp
qed

definition initial_mon_state :: "monitor_env \<Rightarrow> mon_state" where
  "initial_mon_state env = \<lparr> now = clock_start env, last_content = '''',
      last_change_time = clock_start env, polls = 0, samples = [] \<rparr>"

text \<open>
  \<open>_monitor_output_changes\<close>. With \<open>self.page\<close> unset the loop awaits nothing: it reads
  empty content, which never counts as complete, until the clock passes the timeout.
\<close>

definition monitor_output_changes ::
    "agent \<Rightarrow> web_config \<Rightarrow> monitor_env \<Rightarrow> int \<Rightarrow> mon_state act" where
  "monitor_output_changes ag cfg env timeout_ms =
     (if page ag = None then raise (timed_out cfg timeout_ms)
      else monitor_loop cfg env timeout_ms (initial_mon_state env))"

text \<open>
  The time of the last change in a history of samples (newest first): the reading of the
  newest sample whose content differs from the one read before it; before the first
  sample the content is the empty string and the time is the start.
\<close>

fun newest_content :: "(int \<times> string) list \<Rightarrow> string" where
  "newest_content [] = ''''"
| "newest_content ((t, c) # h) = c"

fun last_change :: "int \<Rightarrow> (int \<times> string) list \<Rightarrow> int" where
  "last_change start [] = start"
| "last_change start ((t, c) # h) = (if c \<noteq> newest_content h then t else last_change start h)"

section \<open>\<open>_wait_for_web_completion\<close>, \<open>_send_prompt_to_web_interface\<close>, \<open>execute_prompt\<close> (WebAgent)\<close>

record web_env =
  fill_obs :: "nat \<Rightarrow> sel_obs"
  submit_obs :: "nat \<Rightarrow> sel_obs"
  loading_hidden :: "unit outcome"
  monitor :: monitor_env
  output_file_read :: "string outcome"

definition truthy :: "string option \<Rightarrow> bool" where
  "truthy s = (case s of None \<Rightarrow> False | Some v \<Rightarrow> v \<noteq> [])"

definition wait_for_web_completion :: "agent \<Rightarrow> web_config \<Rightarrow> web_env \<Rightarrow> unit act" where
  "wait_for_web_completion ag cfg env =
     (let timeout_ms = agent_timeout_seconds cfg * 1000 in
      catch
        (thn (case loading_selector cfg of
                None \<Rightarrow> ret False
              | Some ls \<Rightarrow>
                  if ls \<noteq> [] \<and> page ag \<noteq> None then
                    catch (thn (call (EWaitSelector ls ''hidden'' timeout_ms) (loading_hidden env))
                               (\<lambda>u. ret True))
                          (\<lambda>e. ret False)
                  else ret False) (\<lambda>returned.
         if returned then ret ()
         else thn (monitor_output_changes ag cfg (monitor env) timeout_ms) (\<lambda>st. ret ())))
        (\<lambda>e. case e of
                AgentTimeoutException a s m \<Rightarrow> raise e
              | Exception m \<Rightarrow> ret ()))"

definition lift :: "'a \<times> event list \<Rightarrow> 'a act" where
  "lift r = (Inr (fst r), snd r)"

definition send_prompt_to_web_interface ::
    "agent \<Rightarrow> web_config \<Rightarrow> web_env \<Rightarrow> string \<Rightarrow> unit act" where
  "send_prompt_to_web_interface ag cfg env prompt =
     catch
       (thn (lift (robust_fill_input ag (fill_obs env) (input_selector cfg) prompt None)) (\<lambda>success.
        if \<not> success then raise (Exception ''Failed to fill input field'')
        else
          thn (lift (robust_click_element ag (submit_obs env) (submit_selector cfg)
                       ''submit button'' None)) (\<lambda>success.
          if \<not> success then raise (Exception ''Failed to click submit button'')
          else if page ag \<noteq> None then sleep RETRY_DELAY else ret ())))
       (\<lambda>e. raise (Exception (''Failed to send prompt to web interface: '' @ exn_str cfg e)))"

text \<open>\<open>AgentResponse\<close> (declared in \<open>agents/base.py\<close>, outside these sources).\<close>

record agent_response =
  content :: string
  success :: bool
  error_message :: "string option"

definition save_instruction :: "string \<Rightarrow> string" where
  "save_instruction file =
     [CHR 0x0A, CHR 0x0A] @ ''After completing the above task, please save a comprehensive summary of everything you did to a file called ''
     @ [CHR 0x27] @ file @ [CHR 0x27]
     @ '' in the current directory. Include:'' @ [CHR 0x0A] @ ''- All changes made'' @ [CHR 0x0A]
     @ ''- Explanations of what was done.'' @ [CHR 0x0A, CHR 0x0A]
     @ ''IMPORTANT: Do NOT create or update any documentation files (such as README.md or docs/*) unless you are explicitly asked to do so in the original prompt. If you believe that creating a documentation file would help you better implement the required coding task, you may create it, but you must delete it once you are finished and before you finish the task.''"

definition web_execute_prompt ::
    "agent \<Rightarrow> web_config \<Rightarrow> web_env \<Rightarrow> string \<Rightarrow> agent_response \<times> event list" where
  "web_execute_prompt ag cfg env prompt =
     (case
        (if \<not> is_browser_ready ag \<or> page ag = None
         then raise (Exception ''Browser not ready. Call open_coding_interface() first.'')
         else
           thn (send_prompt_to_web_interface ag cfg env (prompt @ save_instruction (output_file cfg))) (\<lambda>u.
           thn (wait_for_web_completion ag cfg env) (\<lambda>u.
           call EReadOutputFile (output_file_read env))))
      of
        (Inr c, t) \<Rightarrow> (\<lparr> content = c, success = True, error_message = None \<rparr>, t)
      | (Inl e, t) \<Rightarrow>
          (\<lparr> content = '''', success = False,
             error_message = Some (''Failed to execute prompt: '' @ exn_str cfg e) \<rparr>, t))"

section \<open>Best-effort captcha solving and the default \<open>_setup_web_interface\<close> (WebAgent)\<close>

text \<open>\<open>cap name\<close> is what the solver of that captcha type does when awaited.\<close>

fun try_captchas :: "(string \<Rightarrow> unit outcome) \<Rightarrow> string list \<Rightarrow> bool act" where
  "try_captchas cap [] = ret False"
| "try_captchas cap (name # names) =
     (case call (ESolveCaptcha name) (cap name) of
        (Inr u, t) \<Rightarrow> (Inr True, t)
      | (Inl e, t) \<Rightarrow> (case try_captchas cap names of (r, t') \<Rightarrow> (r, t @ t')))"

definition solve_captcha_if_present :: "agent \<Rightarrow> (string \<Rightarrow> unit outcome) \<Rightarrow> bool act" where
  "solve_captcha_if_present ag cap =
     catch
       (if page ag = None then ret False
        else try_captchas cap [''hCaptcha'', ''reCaptcha'', ''geeTest''])
       (\<lambda>e. ret False)"

definition setup_web_interface ::
    "agent \<Rightarrow> web_config \<Rightarrow> (string \<Rightarrow> unit outcome) \<Rightarrow> unit outcome \<Rightarrow> bool act" where
  "setup_web_interface ag cfg cap input_wait =
     catch
       (thn (solve_captcha_if_present ag cap) (\<lambda>solved.
        thn (wait_for_element_robust ag input_wait (input_selector cfg) (Some DEFAULT_TIMEOUT)
               ''visible'') (\<lambda>input_available.
        if \<not> input_available then ret False else ret True)))
       (\<lambda>e. ret False)"

section \<open>class OpenAICodexAgent\<close>

definition PROMPT_INPUT :: selector where "PROMPT_INPUT = ''#prompt-textarea''"
definition CODE_BUTTON :: selector where "CODE_BUTTON = ''button:has-text('Code')''"
definition CHAT_INPUT :: selector where "CHAT_INPUT = ''#prompt-textarea''"
definition USE_THIS_BUTTON :: selector where "USE_THIS_BUTTON = ''button:has-text('Use this')''"
definition CREATE_ENV_BUTTON :: selector where "CREATE_ENV_BUTTON = ''button.btn-primary''"
definition TASK_LINK :: selector where "TASK_LINK = ''.task-row-container a''"
definition STOP_BUTTON :: selector where
  "STOP_BUTTON = ''button[aria-label='stop-button'], button[data-testid='stop-button']''"
definition CREATE_PR_BUTTON :: selector where
  "CREATE_PR_BUTTON = ''div.btn-primary button:has(span:text('Create PR'))''"
definition VIEW_PR_LINK :: selector where "VIEW_PR_LINK = ''a:has(span:text('View PR'))''"
definition OUTPUT_CONTENT :: selector where
  "OUTPUT_CONTENT = ''div.markdown.prose, div[class*='markdown'][class*='prose']''"
definition OUTPUT_FALLBACK :: selector where
  "OUTPUT_FALLBACK = ''div[class*='markdown'], div[class*='prose']''"
definition LOADING :: selector where
  "LOADING = ''.animate-pulse, .loading, [role='progressbar']''"

text \<open>\<open>EXISTING_REPO_ROW.format(repo_name=repo_name)\<close>\<close>

definition EXISTING_REPO_ROW :: "string \<Rightarrow> selector" where
  "EXISTING_REPO_ROW repo_name =
     ''tr.group'' @ [CHR 0x5C] @ ''/row:has-text('' @ [CHR 0x27] @ repo_name @ [CHR 0x27] @ '')''"

text \<open>
  \<open>_setup_web_interface\<close> of the Codex agent. The two steps are given by what they return
  or raise; the second is run only when the first returned \<open>True\<close>.
\<close>

definition codex_setup_web_interface :: "bool act \<Rightarrow> bool act \<Rightarrow> bool act" where
  "codex_setup_web_interface handle_authentication handle_environments_page =
     catch
       (thn handle_authentication (\<lambda>authenticated.
        if \<not> authenticated then ret False
        else
          thn handle_environments_page (\<lambda>selected.
          if \<not> selected then ret False else ret True)))
       (\<lambda>e. ret False)"

text \<open>What the page does at each call of one task run of the Codex agent.\<close>

record codex_env =
  prompt_fill :: "nat \<Rightarrow> sel_obs"
  code_click :: "nat \<Rightarrow> sel_obs"
  loading_appear :: "unit outcome"
  loading_gone :: "unit outcome"
  task_query :: "element option outcome"
  chat_query :: "element option outcome"
  stop_appear :: "unit outcome"
  stop_hidden :: "unit outcome"
  output_primary :: "element list outcome"
  output_fallback :: "element list outcome"
  create_pr_wait :: "unit outcome"
  create_pr_query :: "element option outcome"
  view_pr_wait :: "unit outcome"
  view_pr_query :: "element option outcome"

definition send_prompt :: "agent \<Rightarrow> codex_env \<Rightarrow> string \<Rightarrow> unit act" where
  "send_prompt ag env prompt =
     thn (lift (robust_fill_input ag (prompt_fill env) PROMPT_INPUT prompt None)) (\<lambda>success.
     if \<not> success then raise (Exception ''Failed to fill prompt input'')
     else
       thn (lift (robust_click_element ag (code_click env) CODE_BUTTON ''Code button'' None))
         (\<lambda>success.
       if \<not> success then raise (Exception ''Failed to click Code button'') else ret ()))"

definition wait_for_loading_complete :: "agent \<Rightarrow> codex_env \<Rightarrow> unit act" where
  "wait_for_loading_complete ag env =
     catch
       (thn (wait_for_element_robust ag (loading_appear env) LOADING (Some 5000) ''visible'')
          (\<lambda>loading_appeared.
        if loading_appeared
        then on_page ag (call (EWaitSelector LOADING ''hidden'' 30000) (loading_gone env))
        else ret ()))
       (\<lambda>e. ret ())"

definition open_created_task :: "agent \<Rightarrow> codex_env \<Rightarrow> bool act" where
  "open_created_task ag env =
     thn (wait_for_loading_complete ag env) (\<lambda>u.
     on_page ag
       (thn (sleep 3000) (\<lambda>u.
        thn (call (EQuery TASK_LINK) (task_query env)) (\<lambda>task_element.
        case task_element of
          None \<Rightarrow> ret False
        | Some el \<Rightarrow>
            thn (call (EGetAttribute TASK_LINK ''href'') (el_href el)) (\<lambda>href.
            thn (call (EClick TASK_LINK) (el_click el)) (\<lambda>u.
            thn (sleep 2000) (\<lambda>u. ret True)))))))"

definition focus_chat_input :: "agent \<Rightarrow> codex_env \<Rightarrow> unit act" where
  "focus_chat_input ag env =
     catch
       (on_page ag
          (thn (call (EQuery CHAT_INPUT) (chat_query env)) (\<lambda>element.
           case element of
             None \<Rightarrow> ret ()
           | Some el \<Rightarrow> thn (call (EClick CHAT_INPUT) (el_click el)) (\<lambda>u. sleep 1000))))
       (\<lambda>e. ret ())"

text \<open>
  \<open>_wait_for_completion\<close>: completion by the stop button. The whole wait is inside one
  \<open>try\<close> whose \<open>except Exception\<close> prints a warning; the final 2 s wait is outside it.
\<close>

definition wait_for_completion :: "agent \<Rightarrow> codex_env \<Rightarrow> unit act" where
  "wait_for_completion ag env =
     thn (catch
            (thn (wait_for_element_robust ag (stop_appear env) STOP_BUTTON (Some 30000) ''visible'')
               (\<lambda>stop_button_appeared.
             if stop_button_appeared
             then on_page ag (call (EWaitSelector STOP_BUTTON ''hidden'' 1200000) (stop_hidden env))
             else ret ()))
            (\<lambda>e. ret ()))
       (\<lambda>u. on_page ag (sleep 2000))"

definition extract_output_content :: "agent \<Rightarrow> codex_env \<Rightarrow> string option act" where
  "extract_output_content ag env =
     catch
       (on_page ag
          (thn (sleep 2000) (\<lambda>u.
           thn (call (EQueryAll OUTPUT_CONTENT) (output_primary env)) (\<lambda>output_elements.
           thn (case output_elements of
                  [] \<Rightarrow> call (EQueryAll OUTPUT_FALLBACK) (output_fallback env)
                | e # es \<Rightarrow> ret output_elements) (\<lambda>output_elements.
           case output_elements of
             [] \<Rightarrow> ret None
           | e # es \<Rightarrow>
               thn (call (EInnerText OUTPUT_CONTENT) (el_inner_text (last output_elements)))
                 (\<lambda>c.
               case c of
                 None \<Rightarrow> ret None
               | Some txt \<Rightarrow>
                   if txt \<noteq> [] \<and> length (strip txt) > 0 then ret (Some (strip txt))
                   else ret None))))))
       (\<lambda>e. ret None)"

definition try_create_pr :: "agent \<Rightarrow> codex_env \<Rightarrow> unit act" where
  "try_create_pr ag env =
     catch
       (on_page ag
          (thn (call (EWaitSelector CREATE_PR_BUTTON ''visible'' 10000) (create_pr_wait env)) (\<lambda>u.
           thn (call (EQuery CREATE_PR_BUTTON) (create_pr_query env)) (\<lambda>element.
           case element of
             None \<Rightarrow> ret ()
           | Some el \<Rightarrow>
               thn (call (EIsVisible CREATE_PR_BUTTON) (el_is_visible el)) (\<lambda>v.
               if v then thn (call (EClick CREATE_PR_BUTTON) (el_click el)) (\<lambda>u. sleep 3000)
               else ret ())))))
       (\<lambda>e. ret ())"

definition extract_pr_url :: "agent \<Rightarrow> codex_env \<Rightarrow> string option act" where
  "extract_pr_url ag env =
     catch
       (on_page ag
          (thn (call (EWaitSelector VIEW_PR_LINK ''visible'' 30000) (view_pr_wait env)) (\<lambda>u.
           thn (call (EQuery VIEW_PR_LINK) (view_pr_query env)) (\<lambda>pr_link.
           case pr_link of
             None \<Rightarrow> ret None
           | Some el \<Rightarrow>
               thn (call (EGetAttribute VIEW_PR_LINK ''href'') (el_href el)) (\<lambda>href.
               case href of
                 None \<Rightarrow> ret None
               | Some h \<Rightarrow>
                   if h \<noteq> [] \<and> contains ''github.com'' h \<and> contains ''/pull/'' h
                   then ret (Some h) else ret None)))))
       (\<lambda>e. ret None)"

definition complete_task_and_get_pr ::
    "agent \<Rightarrow> codex_env \<Rightarrow> (string option \<times> string option) act" where
  "complete_task_and_get_pr ag env =
     thn (focus_chat_input ag env) (\<lambda>u.
     thn (wait_for_completion ag env) (\<lambda>u.
     thn (extract_output_content ag env) (\<lambda>output_content.
     thn (try_create_pr ag env) (\<lambda>u.
     thn (extract_pr_url ag env) (\<lambda>pr_url.
     ret (output_content, pr_url))))))"

text \<open>Building the response of \<open>execute_prompt\<close>.\<close>

definition with_output_and_pr :: string where
  "with_output_and_pr = ''Task completed successfully with output and PR created.''"
definition with_output :: string where
  "with_output = ''Task completed successfully with output generated.''"
definition nothing_captured :: string where
  "nothing_captured = ''Task completed but no output or PR captured.''"

definition response_parts :: "string option \<Rightarrow> string option \<Rightarrow> string list" where
  "response_parts output_content pr_url =
     (case output_content of
        None \<Rightarrow> []
      | Some out \<Rightarrow> if out = [] then []
                    else [''AGENT OUTPUT:'', replicate 50 (CHR ''=''), out, replicate 50 (CHR ''='')])
     @ (case pr_url of
          None \<Rightarrow> []
        | Some url \<Rightarrow> if url = [] then [] else [''PR created: '' @ url])"

definition status_message :: "string option \<Rightarrow> string option \<Rightarrow> string" where
  "status_message output_content pr_url =
     (if truthy pr_url then with_output_and_pr
      else if truthy output_content then with_output
      else nothing_captured)"

definition final_content :: "string option \<Rightarrow> string option \<Rightarrow> string" where
  "final_content output_content pr_url =
     (case response_parts output_content pr_url of
        [] \<Rightarrow> status_message output_content pr_url
      | p # ps \<Rightarrow> join [CHR 0x0A, CHR 0x0A]
                    (status_message output_content pr_url # p # ps))"

definition codex_execute_prompt ::
    "agent \<Rightarrow> web_config \<Rightarrow> codex_env \<Rightarrow> string \<Rightarrow> agent_response \<times> event list" where
  "codex_execute_prompt ag cfg env prompt =
     (case
        thn (send_prompt ag env prompt) (\<lambda>u.
        thn (open_created_task ag env) (\<lambda>opened.
        if \<not> opened
        then ret \<lparr> content = '''', success = False, error_message = Some ''Failed to open task'' \<rparr>
        else
          thn (complete_task_and_get_pr ag env) (\<lambda>(output_content, pr_url).
          ret \<lparr> content = final_content output_content pr_url, success = True,
                error_message = None \<rparr>)))
      of
        (Inr r, t) \<Rightarrow> (r, t)
      | (Inl e, t) \<Rightarrow>
          (\<lparr> content = '''', success = False, error_message = Some (exn_str cfg e) \<rparr>, t))"

text \<open>What the content of a response says was captured.\<close>

definition records_pr :: "agent_response \<Rightarrow> bool" where
  "records_pr r = starts_with with_output_and_pr (content r)"

definition records_output :: "agent_response \<Rightarrow> bool" where
  "records_output r =
     (starts_with with_output (content r)
      \<or> starts_with (with_output_and_pr @ [CHR 0x0A, CHR 0x0A] @ ''AGENT OUTPUT:'') (content r))"

section \<open>\<open>_extract_repo_name\<close>: the regular expression\<close>

text \<open>
  The fragment of Python's \<open>re\<close> that the pattern uses, with backtracking in Python's
  order: a greedy repetition tries the longest run first, a lazy one the shortest, an
  optional part is tried before it is skipped. Characters are code points below 256.
\<close>

datatype rx =
    Lit string
  | Cls "char \<Rightarrow> bool"
  | Seq rx rx
  | PlusGreedy "char \<Rightarrow> bool"
  | PlusLazy "char \<Rightarrow> bool"
  | Opt rx
  | Grp nat rx
  | Eos

type_synonym caps = "(nat \<times> string) list"

fun greedy :: "(char \<Rightarrow> bool) \<Rightarrow> string \<Rightarrow> caps \<Rightarrow> (string \<Rightarrow> caps \<Rightarrow> caps option) \<Rightarrow> caps option" where
  "greedy p [] cp k = k [] cp"
| "greedy p (x # xs) cp k =
     (if p x then (case greedy p xs cp k of Some r \<Rightarrow> Some r | None \<Rightarrow> k (x # xs) cp)
      else k (x # xs) cp)"

fun lazy :: "(char \<Rightarrow> bool) \<Rightarrow> string \<Rightarrow> caps \<Rightarrow> (string \<Rightarrow> caps \<Rightarrow> caps option) \<Rightarrow> caps option" where
  "lazy p [] cp k = k [] cp"
| "lazy p (x # xs) cp k =
     (case k (x # xs) cp of
        Some r \<Rightarrow> Some r
      | None \<Rightarrow> if p x then lazy p xs cp k else None)"

text \<open>
  \<open>rx_match r s cp k\<close>: match \<open>r\<close> at the front of \<open>s\<close>, then go on with \<open>k\<close> on the rest.
  \<open>$\<close> (no \<open>MULTILINE\<close>) holds at the end and just before a final newline.
\<close>

primrec rx_match :: "rx \<Rightarrow> string \<Rightarrow> caps \<Rightarrow> (string \<Rightarrow> caps \<Rightarrow> caps option) \<Rightarrow> caps option" where
  "rx_match (Lit w) = (\<lambda>s cp k. if starts_with w s then k (drop (length w) s) cp else None)"
| "rx_match (Cls p) = (\<lambda>s cp k. case s of [] \<Rightarrow> None | x # xs \<Rightarrow> if p x then k xs cp else None)"
| "rx_match (Seq a b) = (\<lambda>s cp k. rx_match a s cp (\<lambda>s' cp'. rx_match b s' cp' k))"
| "rx_match (PlusGreedy p) =
     (\<lambda>s cp k. case s of [] \<Rightarrow> None | x # xs \<Rightarrow> if p x then greedy p xs cp k else None)"
| "rx_match (PlusLazy p) =
     (\<lambda>s cp k. case s of [] \<Rightarrow> None | x # xs \<Rightarrow> if p x then lazy p xs cp k else None)"
| "rx_match (Opt a) =
     (\<lambda>s cp k. case rx_match a s cp k of Some r \<Rightarrow> Some r | None \<Rightarrow> k s cp)"
| "rx_match (Grp n a) =
     (\<lambda>s cp k. rx_match a s cp (\<lambda>s' cp'. k s' ((n, take (length s - length s') s) # cp')))"
| "rx_match Eos = (\<lambda>s cp k. if s = [] \<or> s = [CHR 0x0A] then k s cp else None)"

text \<open>\<open>re.search\<close>: the first position, from the left, at which the pattern matches.\<close>

fun rx_search :: "rx \<Rightarrow> string \<Rightarrow> caps option" where
  "rx_search r [] = rx_match r [] [] (\<lambda>s cp. Some cp)"
| "rx_search r (x # xs) =
     (case rx_match r (x # xs) [] (\<lambda>s cp. Some cp) of
        Some cp \<Rightarrow> Some cp
      | None \<Rightarrow> rx_search r xs)"

text \<open>\<open>\w\<close> on code points below 256, and the class \<open>[\w\-\.]\<close>.\<close>

definition is_word :: "char \<Rightarrow> bool" where
  "is_word c =
     (let n = (of_char c :: nat) in
        (48 \<le> n \<and> n \<le> 57) \<or> (65 \<le> n \<and> n \<le> 90) \<or> n = 95 \<or> (97 \<le> n \<and> n \<le> 122)
        \<or> n = 170 \<or> n = 178 \<or> n = 179 \<or> n = 181 \<or> n = 185 \<or> n = 186
        \<or> n = 188 \<or> n = 189 \<or> n = 190
        \<or> (192 \<le> n \<and> n \<le> 214) \<or> (216 \<le> n \<and> n \<le> 246) \<or> (248 \<le> n \<and> n \<le> 255))"

definition name_char :: "char \<Rightarrow> bool" where
  "name_char c = (is_word c \<or> c = CHR ''-'' \<or> c = CHR ''.'')"

text \<open>\<open>github\.com[/:]([\w\-\.]+)/([\w\-\.]+?)(?:\.git)?/?$\<close>\<close>

definition repo_pattern :: rx where
  "repo_pattern =
     Seq (Lit ''github.com'')
    (Seq (Cls (\<lambda>c. c = CHR ''/'' \<or> c = CHR '':''))
    (Seq (Grp 1 (PlusGreedy name_char))
    (Seq (Lit ''/'')
    (Seq (Grp 2 (PlusLazy name_char))
    (Seq (Opt (Lit ''.git''))
    (Seq (Opt (Lit ''/''))
     Eos))))))"

definition extract_repo_name :: "string \<Rightarrow> string" where
  "extract_repo_name url =
     (if url = [] then []
      else case rx_search repo_pattern url of
             None \<Rightarrow> []
           | Some cp \<Rightarrow>
               (case (map_of cp 1, map_of cp 2) of
                  (Some username, Some repo_name) \<Rightarrow> username @ ''/'' @ repo_name
                | _ \<Rightarrow> []))"

section \<open>\<open>_find_and_select_existing_environment\<close>, \<open>_handle_environments_page\<close>\<close>

text \<open>
  The environments page: its address, what waiting for the network to settle does, and
  what it shows for a selector at the \<open>i\<close>-th attempt on it.
\<close>

record env_page =
  page_url :: string
  load_state :: "unit outcome"
  lookup :: "selector \<Rightarrow> nat \<Rightarrow> sel_obs"

definition find_and_select_existing_environment :: "agent \<Rightarrow> env_page \<Rightarrow> string \<Rightarrow> bool act" where
  "find_and_select_existing_environment ag pg repo_name =
     catch
       (let repo_selector = EXISTING_REPO_ROW repo_name in
        thn (on_page ag (call (ELoadState ''networkidle'') (load_state pg))) (\<lambda>u.
        thn (get_element_robust ag (lookup pg repo_selector 0) repo_selector None) (\<lambda>element.
        case element of
          None \<Rightarrow> ret False
        | Some el \<Rightarrow>
            thn (lift (robust_click_element ag (lookup pg repo_selector) repo_selector
                         (''repository row for '' @ repo_name) None)) (\<lambda>success.
            if success then
              thn (on_page ag (sleep 2000)) (\<lambda>u.
              lift (robust_click_element ag (lookup pg USE_THIS_BUTTON) USE_THIS_BUTTON
                      ''Use this button'' None))
            else ret False))))
       (\<lambda>e. ret False)"

text \<open>
  \<open>_handle_environments_page\<close>. The creation branch (\<open>_create_new_environment\<close>) is a
  parameter: what it returns for a repository name.
\<close>

definition handle_environments_page ::
    "agent \<Rightarrow> env_page \<Rightarrow> (string \<Rightarrow> bool act) \<Rightarrow> bool act" where
  "handle_environments_page ag pg create_new_environment =
     (if \<not> truthy (repo_url ag) then ret True
      else
        (let repo_name = extract_repo_name (case repo_url ag of Some u \<Rightarrow> u | None \<Rightarrow> [])
         in thn (on_page ag (ret (page_url pg))) (\<lambda>url.
            if contains ''settings/environment/create'' url then create_new_environment repo_name
            else
              thn (find_and_select_existing_environment ag pg repo_name) (\<lambda>selected.
              if selected then ret True
              else
                thn (lift (robust_click_element ag (lookup pg CREATE_ENV_BUTTON) CREATE_ENV_BUTTON
                             ''create environment button'' None)) (\<lambda>clicked.
                if \<not> clicked then ret False else create_new_environment repo_name)))))"



text \<open>
  The loop keeps \<open>last_content\<close> and \<open>last_change_time\<close> in step with the history of what
  it has read.
\<close>

definition history_ok :: "int \<Rightarrow> mon_state \<Rightarrow> bool" where
  "history_ok start st =
     (last_content st = newest_content (samples st)
      \<and> last_change_time st = last_change start (samples st))"

section \<open>Concrete pages used to evaluate the model\<close>

definition demo_config :: web_config where
  "demo_config = \<lparr> agent_name = ''demo'', input_selector = ''#in'', submit_selector = ''#go'',
      output_selector = ''#out'', loading_selector = None, output_file = ''out.md'',
      agent_timeout_seconds = 10, timeout_text = (\<lambda>a s m. m) \<rparr>"

text \<open>An output area that shows the same 101 characters at every poll, and an empty one.\<close>

definition steady_output :: monitor_env where
  "steady_output = \<lparr> clock_start = 0,
      poll_query = (\<lambda>i. Inr (Some (good_element\<lparr> el_text_content :=
                                     Inr (Some (replicate 101 (CHR ''a''))) \<rparr>))),
      query_ms = (\<lambda>i. 0), read_gap_ms = (\<lambda>i. 0), lag_ms = (\<lambda>i. 0) \<rparr>"

definition empty_output :: monitor_env where
  "empty_output = \<lparr> clock_start = 0, poll_query = (\<lambda>i. Inr None),
      query_ms = (\<lambda>i. 0), read_gap_ms = (\<lambda>i. 0), lag_ms = (\<lambda>i. 0) \<rparr>"

definition demo_web_env :: web_env where
  "demo_web_env = \<lparr> fill_obs = (\<lambda>i. found good_element), submit_obs = (\<lambda>i. found good_element),
      loading_hidden = Inr (), monitor = empty_output, output_file_read = Inr ''summary'' \<rparr>"

text \<open>
  A Codex page on which everything works: the task runs, the stop button shows and goes,
  one output block is rendered, no pull request is offered.
\<close>

definition codex_page :: codex_env where
  "codex_page = \<lparr>
      prompt_fill = (\<lambda>i. found good_element),
      code_click = (\<lambda>i. found good_element),
      loading_appear = Inl (Exception ''Timeout 5000ms exceeded''),
      loading_gone = Inr (),
      task_query = Inr (Some (good_element\<lparr> el_href := Inr (Some ''/codex/tasks/1'') \<rparr>)),
      chat_query = Inr (Some good_element),
      stop_appear = Inr (),
      stop_hidden = Inr (),
      output_primary = Inr [good_element\<lparr> el_inner_text := Inr (Some ''All done.'') \<rparr>],
      output_fallback = Inr [],
      create_pr_wait = Inl (Exception ''Timeout 10000ms exceeded''),
      create_pr_query = Inr None,
      view_pr_wait = Inl (Exception ''Timeout 30000ms exceeded''),
      view_pr_query = Inr None \<rparr>"

text \<open>The same page with a stop button that is still there after 20 minutes.\<close>

definition busy_forever :: codex_env where
  "busy_forever = codex_page\<lparr> stop_hidden := Inl (Exception ''Timeout 1200000ms exceeded'') \<rparr>"

text \<open>
  A Codex agent whose \<open>open_coding_interface\<close> failed in setup: authentication reported
  failure, so the ready flag stayed down, and the browser was left open.
\<close>

definition setup_failed_agent :: agent where
  "setup_failed_agent =
     fst (snd (open_coding_interface init_agent working_open_env
                 ''https://chatgpt.com/auth/login?next=/codex/settings/environments''
                 (\<lambda>ag. codex_setup_web_interface (ret False) (ret True))))"

text \<open>What the two best-effort extractions of a task run hand back.\<close>

definition captured_output :: "agent \<Rightarrow> codex_env \<Rightarrow> string option" where
  "captured_output ag env = (case fst (extract_output_content ag env) of Inr v \<Rightarrow> v | Inl e \<Rightarrow> None)"

definition captured_pr :: "agent \<Rightarrow> codex_env \<Rightarrow> string option" where
  "captured_pr ag env = (case fst (extract_pr_url ag env) of Inr v \<Rightarrow> v | Inl e \<Rightarrow> None)"



text \<open>
  An open session whose page raises when closed, and the states in which the first
  \<open>close()\<close> that \<open>_cleanup_browser\<close> calls raises.
\<close>

definition stuck_page_agent :: agent where
  "stuck_page_agent =
     open_agent\<lparr> page := Some \<lparr> hid = 3, close_result = Inl (Exception ''Target closed'') \<rparr> \<rparr>"

definition page_close_raises :: "agent \<Rightarrow> bool" where
  "page_close_raises ag = (case page ag of None \<Rightarrow> False | Some h \<Rightarrow> isl (close_result h))"

section \<open>Properties\<close>

declare navigate_loop.simps [simp del] robust_click_loop.simps [simp del] robust_fill_loop.simps [simp del]

lemmas act_defs = ret_def raise_def call_def thn_def catch_def sleep_def

lemma released_close: "released ag \<Longrightarrow> close_coding_interface ag = (True, ag, [])"
  by (simp add: released_def close_coding_interface_def cleanup_browser_def cleanup_page_def
      cleanup_browser_handle_def cleanup_client_def)

lemma clean_close_released:
  "closes_cleanly ag \<Longrightarrow> released (fst (snd (close_coding_interface ag)))"
  by (auto simp: released_def closes_cleanly_def close_coding_interface_def cleanup_browser_def cleanup_page_def
      cleanup_browser_handle_def cleanup_client_def split: option.splits sum.splits)

lemma click_attempt_fails:
  "page ag \<noteq> None \<Longrightarrow> \<not> actionable_obs ob \<Longrightarrow>
   \<exists>e t. click_attempt ag ob sel d = (Inl e, t) \<and> attempts_made t = 1 \<and> retry_delays t = 0"
  by (auto simp: click_attempt_def actionable_obs_def is_actionable_def act_defs attempts_made_def
      retry_delays_def RETRY_DELAY_def
      split: sum.splits option.splits if_splits)

lemma fill_attempt_fails:
  "page ag \<noteq> None \<Longrightarrow> \<not> actionable_obs ob \<Longrightarrow>
   \<exists>e t. fill_attempt ag ob sel d = (Inl e, t) \<and> attempts_made t = 1 \<and> retry_delays t = 0"
  by (auto simp: fill_attempt_def actionable_obs_def is_actionable_def act_defs attempts_made_def
      retry_delays_def RETRY_DELAY_def
      split: sum.splits option.splits if_splits)


lemma click_loop_fails:
  "page ag \<noteq> None \<Longrightarrow> int a \<le> n \<Longrightarrow>
     (\<forall>i. a \<le> i \<and> int i < n \<longrightarrow> isl (fst (click_attempt ag (env i) sel d))) \<Longrightarrow>
     robust_click_loop ag env sel d n a =
       (False, concat (map (\<lambda>i. snd (click_attempt ag (env i) sel d)
                    @ (if int i < n - 1 then [ETimeout RETRY_DELAY] else [])) [a..<nat n]))"
proof (induction ag env sel d n a rule: robust_click_loop.induct)
  case (1 ag env sel d n a)
  note pg = \<open>page ag \<noteq> None\<close>
  show ?case
  proof (cases "int a < n")
    case False
    with "1.prems" have "nat n \<le> a" by linarith
    with False show ?thesis by (simp add: robust_click_loop.simps)
  next
    case True
    then have lt: "a < nat n" by linarith
    from "1.prems" True have "isl (fst (click_attempt ag (env a) sel d))" by simp
    then obtain e t where att: "click_attempt ag (env a) sel d = (Inl e, t)"
      by (cases "click_attempt ag (env a) sel d") (auto simp: isl_def)
    have up: "[a..<nat n] = a # [Suc a..<nat n]" using lt by (simp add: upt_conv_Cons)
    show ?thesis
    proof (cases "int a < n - 1")
      case last: False
      then have "Suc a = nat n" using True by linarith
      then show ?thesis using True last att
        by (simp add: robust_click_loop.simps [of ag env sel d n a] up)
    next
      case more: True
      have ih: "robust_click_loop ag env sel d n (Suc a) =
        (False, concat (map (\<lambda>i. snd (click_attempt ag (env i) sel d)
                    @ (if int i < n - 1 then [ETimeout RETRY_DELAY] else [])) [Suc a..<nat n]))"
        using "1.IH" [OF True att [symmetric] refl] more pg "1.prems" by auto
      show ?thesis using True more att pg ih
        by (simp add: robust_click_loop.simps [of ag env sel d n a] up)
    qed
  qed
qed


lemma fill_loop_fails:
  "page ag \<noteq> None \<Longrightarrow> int a \<le> n \<Longrightarrow>
     (\<forall>i. a \<le> i \<and> int i < n \<longrightarrow> isl (fst (fill_attempt ag (env i) sel d))) \<Longrightarrow>
     robust_fill_loop ag env sel d n a =
       (False, concat (map (\<lambda>i. snd (fill_attempt ag (env i) sel d)
                    @ (if int i < n - 1 then [ETimeout RETRY_DELAY] else [])) [a..<nat n]))"
proof (induction ag env sel d n a rule: robust_fill_loop.induct)
  case (1 ag env sel d n a)
  note pg = \<open>page ag \<noteq> None\<close>
  show ?case
  proof (cases "int a < n")
    case False
    with "1.prems" have "nat n \<le> a" by linarith
    with False show ?thesis by (simp add: robust_fill_loop.simps)
  next
    case True
    then have lt: "a < nat n" by linarith
    from "1.prems" True have "isl (fst (fill_attempt ag (env a) sel d))" by simp
    then obtain e t where att: "fill_attempt ag (env a) sel d = (Inl e, t)"
      by (cases "fill_attempt ag (env a) sel d") (auto simp: isl_def)
    have up: "[a..<nat n] = a # [Suc a..<nat n]" using lt by (simp add: upt_conv_Cons)
    show ?thesis
    proof (cases "int a < n - 1")
      case last: False
      then have "Suc a = nat n" using True by linarith
      then show ?thesis using True last att
        by (simp add: robust_fill_loop.simps [of ag env sel d n a] up)
    next
      case more: True
      have ih: "robust_fill_loop ag env sel d n (Suc a) =
        (False, concat (map (\<lambda>i. snd (fill_attempt ag (env i) sel d)
                    @ (if int i < n - 1 then [ETimeout RETRY_DELAY] else [])) [Suc a..<nat n]))"
        using "1.IH" [OF True att [symmetric] refl] more pg "1.prems" by auto
      show ?thesis using True more att pg ih
        by (simp add: robust_fill_loop.simps [of ag env sel d n a] up)
    qed
  qed
qed

lemma attempts_made_append [simp]: "attempts_made (s @ t) = attempts_made s + attempts_made t"
  by (simp add: attempts_made_def)

lemma retry_delays_append [simp]: "retry_delays (s @ t) = retry_delays s + retry_delays t"
  by (simp add: retry_delays_def)

lemma retry_delays_single [simp]: "retry_delays [ETimeout RETRY_DELAY] = 1"
  "attempts_made [ETimeout RETRY_DELAY] = 0" "attempts_made [] = 0" "retry_delays [] = 0"
  by (simp_all add: retry_delays_def attempts_made_def)

lemma interleaved_counts_aux:
  "(\<forall>i \<in> set xs. attempts_made (att i) = 1 \<and> retry_delays (att i) = 0) \<Longrightarrow>
   attempts_made (concat (map (\<lambda>i. att i @ (if P i then [ETimeout RETRY_DELAY] else [])) xs))
     = length xs \<and>
   retry_delays (concat (map (\<lambda>i. att i @ (if P i then [ETimeout RETRY_DELAY] else [])) xs))
     = length (filter P xs)"
  by (induction xs) auto

lemma filter_all_but_last:
  assumes "1 \<le> n"
  shows "length (filter (\<lambda>i. int i < n - 1) [0..<nat n]) = nat n - 1"
proof -
  from assms obtain k where k: "nat n = Suc k" by (cases "nat n") auto
  then have n: "n = int k + 1" by linarith
  have "filter (\<lambda>i. int i < n - 1) [0..<k] = [0..<k]"
    by (simp add: filter_id_conv n)
  then show ?thesis using k n by simp
qed

lemma interleaved_counts:
  assumes "1 \<le> n" and "\<forall>i. int i < n \<longrightarrow> attempts_made (att i) = 1 \<and> retry_delays (att i) = 0"
  shows "attempts_made (interleaved att n) = nat n \<and> retry_delays (interleaved att n) = nat n - 1"
proof -
  have "\<forall>i \<in> set [0..<nat n]. attempts_made (att i) = 1 \<and> retry_delays (att i) = 0"
    using assms(2) by auto
  from interleaved_counts_aux [OF this, of "\<lambda>i. int i < n - 1"] filter_all_but_last [OF assms(1)]
  show ?thesis by (simp add: interleaved_def)
qed

lemma effective_retries_pos: "1 \<le> n \<Longrightarrow> effective_retries (Some n) = n"
  by (simp add: effective_retries_def)

text \<open>
  C1. With a page open and a budget of \<open>n \<ge> 1\<close> attempts, a click or a fill on a selector
  that is not actionable at any attempt returns \<open>False\<close> after exactly \<open>n\<close> attempts:
  the trace is the \<open>n\<close> failed attempts with one \<open>wait_for_timeout(RETRY_DELAY)\<close> between
  consecutive ones and none after the last. Without an explicit budget, \<open>n\<close> is 3.
\<close>

theorem retry_budget_exhausted:
  assumes pg: "page ag \<noteq> None" and n: "1 \<le> n"
    and never: "\<forall>i. int i < n \<longrightarrow> \<not> actionable_obs (env i)"
  shows "robust_click_element ag env sel d (Some n)
           = (False, interleaved (\<lambda>i. snd (click_attempt ag (env i) sel d)) n)
       \<and> attempts_made (snd (robust_click_element ag env sel d (Some n))) = nat n
       \<and> retry_delays (snd (robust_click_element ag env sel d (Some n))) = nat n - 1
       \<and> robust_fill_input ag env sel text (Some n)
           = (False, interleaved (\<lambda>i. snd (fill_attempt ag (env i) sel text)) n)
       \<and> attempts_made (snd (robust_fill_input ag env sel text (Some n))) = nat n
       \<and> retry_delays (snd (robust_fill_input ag env sel text (Some n))) = nat n - 1
       \<and> robust_click_element ag env sel d None = robust_click_element ag env sel d (Some 3)
       \<and> robust_fill_input ag env sel text None = robust_fill_input ag env sel text (Some 3)"
proof -
  have ci: "\<forall>i. int i < n \<longrightarrow> isl (fst (click_attempt ag (env i) sel d))"
    using click_attempt_fails [OF pg] never by (metis fst_conv sum.disc(1))
  have fi: "\<forall>i. int i < n \<longrightarrow> isl (fst (fill_attempt ag (env i) sel text))"
    using fill_attempt_fails [OF pg] never by (metis fst_conv sum.disc(1))
  have c: "robust_click_element ag env sel d (Some n)
           = (False, interleaved (\<lambda>i. snd (click_attempt ag (env i) sel d)) n)"
    using click_loop_fails [OF pg, of 0 n env sel d] n ci
    by (simp add: robust_click_element_def effective_retries_pos interleaved_def)
  have f: "robust_fill_input ag env sel text (Some n)
           = (False, interleaved (\<lambda>i. snd (fill_attempt ag (env i) sel text)) n)"
    using fill_loop_fails [OF pg, of 0 n env sel "text"] n fi
    by (simp add: robust_fill_input_def effective_retries_pos interleaved_def)
  have ca: "\<forall>i. int i < n \<longrightarrow> attempts_made (snd (click_attempt ag (env i) sel d)) = 1
                \<and> retry_delays (snd (click_attempt ag (env i) sel d)) = 0"
    using click_attempt_fails [OF pg] never by (metis snd_conv)
  have fa: "\<forall>i. int i < n \<longrightarrow> attempts_made (snd (fill_attempt ag (env i) sel text)) = 1
                \<and> retry_delays (snd (fill_attempt ag (env i) sel text)) = 0"
    using fill_attempt_fails [OF pg] never by (metis snd_conv)
  have d: "robust_click_element ag env sel d None = robust_click_element ag env sel d (Some 3)"
    "robust_fill_input ag env sel text None = robust_fill_input ag env sel text (Some 3)"
    by (simp_all add: robust_click_element_def robust_fill_input_def effective_retries_def RETRY_COUNT_def)
  show ?thesis
    using c f interleaved_counts [OF n ca] interleaved_counts [OF n fa] d by simp
qed

text \<open>Three attempts on a selector that never shows, two on a disabled input.\<close>

theorem retry_budget_exhausted_witness:
  "robust_click_element open_agent (\<lambda>i. never_visible) ''#go'' ''go'' (Some 3)
     = (False, [EWaitSelector ''#go'' ''visible'' 30000, ETimeout 2000,
                EWaitSelector ''#go'' ''visible'' 30000, ETimeout 2000,
                EWaitSelector ''#go'' ''visible'' 30000])
   \<and> attempts_made (snd (robust_fill_input open_agent (\<lambda>i. found disabled_element)
                           ''#in'' ''hi'' (Some 2))) = 2"
proof -
  have pg: "page open_agent \<noteq> None" by (simp add: open_agent_def)
  have three: "(1::int) \<le> 3" and two: "(1::int) \<le> 2" by simp_all
  have n1: "\<forall>i. int i < 3 \<longrightarrow> \<not> actionable_obs ((\<lambda>i. never_visible) i)"
    by (simp add: actionable_obs_def never_visible_def)
  have n2: "\<forall>i. int i < 2 \<longrightarrow> \<not> actionable_obs ((\<lambda>i. found disabled_element) i)"
    by (simp add: actionable_obs_def found_def disabled_element_def good_element_def)
  have upt3: "[0..<3] = [0, 1, 2]" by (simp add: upt_rec)
  from retry_budget_exhausted [OF pg three n1, of "''#go''" "''go''" "''hi''"]
  have "robust_click_element open_agent (\<lambda>i. never_visible) ''#go'' ''go'' (Some 3)
     = (False, interleaved (\<lambda>i. snd (click_attempt open_agent never_visible ''#go'' ''go'')) 3)"
    by blast
  then have a: "robust_click_element open_agent (\<lambda>i. never_visible) ''#go'' ''go'' (Some 3)
     = (False, [EWaitSelector ''#go'' ''visible'' 30000, ETimeout 2000,
                EWaitSelector ''#go'' ''visible'' 30000, ETimeout 2000,
                EWaitSelector ''#go'' ''visible'' 30000])"
    by (simp add: interleaved_def upt3 click_attempt_def open_agent_def never_visible_def act_defs
        DEFAULT_TIMEOUT_def RETRY_DELAY_def)
  from retry_budget_exhausted [OF pg two n2, of "''#in''" "''go''" "''hi''"]
  have "attempts_made (snd (robust_fill_input open_agent (\<lambda>i. found disabled_element)
                           ''#in'' ''hi'' (Some 2))) = nat 2"
    by blast
  then have b: "attempts_made (snd (robust_fill_input open_agent (\<lambda>i. found disabled_element)
                           ''#in'' ''hi'' (Some 2))) = 2"
    by simp
  from a b show ?thesis by simp
qed

lemma released_init: "released init_agent"
  by (simp add: released_def init_agent_def)

lemma close_with_raising_page:
  "page_close_raises ag \<Longrightarrow>
   close_coding_interface ag = (True, ag\<lparr>is_browser_ready := False\<rparr>, [EClose Page])"
  by (auto simp: page_close_raises_def close_coding_interface_def cleanup_browser_def
      cleanup_page_def isl_def split: option.splits)

lemma close_returns_True: "fst (close_coding_interface ag) = True"
  by (simp add: close_coding_interface_def split: prod.splits)

text \<open>
  C10, as the code has it. \<open>close_coding_interface\<close> always returns \<open>True\<close>. From a state
  with no handle set and the ready flag down (a fresh agent, or what a close leaves when
  each \<open>close()\<close> it called returned) it calls nothing and changes nothing, so such a close
  followed by a second one ends in the state of the first. When \<open>page.close()\<close> raises, the
  close still returns \<open>True\<close> but only clears the ready flag: the handles stay set, and a
  second close calls \<open>page.close()\<close> again.
\<close>

theorem close_is_idempotent:
  "fst (close_coding_interface ag) = True
   \<and> (released ag \<longrightarrow> close_coding_interface ag = (True, ag, []))
   \<and> (closes_cleanly ag \<longrightarrow>
        released (fst (snd (close_coding_interface ag)))
        \<and> close_coding_interface (fst (snd (close_coding_interface ag)))
            = (True, fst (snd (close_coding_interface ag)), []))
   \<and> close_coding_interface init_agent = (True, init_agent, [])
   \<and> (page_close_raises ag \<longrightarrow>
        close_coding_interface ag = (True, ag\<lparr>is_browser_ready := False\<rparr>, [EClose Page])
        \<and> close_coding_interface (fst (snd (close_coding_interface ag)))
            = (True, ag\<lparr>is_browser_ready := False\<rparr>, [EClose Page]))"
proof -
  have a: "released ag \<longrightarrow> close_coding_interface ag = (True, ag, [])"
    by (simp add: released_close)
  have c: "closes_cleanly ag \<longrightarrow> released (fst (snd (close_coding_interface ag)))"
    by (simp add: clean_close_released)
  have d: "close_coding_interface init_agent = (True, init_agent, [])"
    by (simp add: released_close released_init)
  have e: "page_close_raises ag \<longrightarrow>
        close_coding_interface ag = (True, ag\<lparr>is_browser_ready := False\<rparr>, [EClose Page])
        \<and> close_coding_interface (fst (snd (close_coding_interface ag)))
            = (True, ag\<lparr>is_browser_ready := False\<rparr>, [EClose Page])"
  proof
    assume r: "page_close_raises ag"
    then have r': "page_close_raises (ag\<lparr>is_browser_ready := False\<rparr>)"
      by (simp add: page_close_raises_def)
    from close_with_raising_page [OF r] close_with_raising_page [OF r']
    show "close_coding_interface ag = (True, ag\<lparr>is_browser_ready := False\<rparr>, [EClose Page])
        \<and> close_coding_interface (fst (snd (close_coding_interface ag)))
            = (True, ag\<lparr>is_browser_ready := False\<rparr>, [EClose Page])"
      by simp
  qed
  have c2: "closes_cleanly ag \<longrightarrow>
        close_coding_interface (fst (snd (close_coding_interface ag)))
            = (True, fst (snd (close_coding_interface ag)), [])"
    using c by (simp add: released_close)
  from a c c2 d e close_returns_True [of ag] show ?thesis by blast
qed

text \<open>
  An open session: the first close tears down three handles, the second none. A fresh
  agent: nothing to do. A page that cannot be closed: the second close tries again.
\<close>

theorem close_is_idempotent_witness:
  "close_coding_interface open_agent
     = (True, init_agent, [EClose Page, EClose Browser, EClose Client])
   \<and> close_coding_interface (fst (snd (close_coding_interface open_agent)))
     = (True, init_agent, [])
   \<and> close_coding_interface init_agent = (True, init_agent, [])
   \<and> close_coding_interface (fst (snd (close_coding_interface stuck_page_agent)))
     = (True, stuck_page_agent\<lparr>is_browser_ready := False\<rparr>, [EClose Page])"
proof -
  have cc: "closes_cleanly open_agent"
    by (simp add: closes_cleanly_def open_agent_def live_handle_def)
  have ri: "released init_agent" by (simp add: released_def init_agent_def)
  have pr: "page_close_raises stuck_page_agent"
    by (simp add: page_close_raises_def stuck_page_agent_def)
  have first: "close_coding_interface open_agent
     = (True, init_agent, [EClose Page, EClose Browser, EClose Client])"
    by (simp add: close_coding_interface_def cleanup_browser_def cleanup_page_def
        cleanup_browser_handle_def cleanup_client_def open_agent_def live_handle_def init_agent_def)
  from close_is_idempotent [of open_agent] cc
  have second: "close_coding_interface (fst (snd (close_coding_interface open_agent)))
            = (True, fst (snd (close_coding_interface open_agent)), [])"
    by blast
  from close_is_idempotent [of init_agent] ri
  have third: "close_coding_interface init_agent = (True, init_agent, [])" by blast
  from close_is_idempotent [of stuck_page_agent] pr
  have fourth: "close_coding_interface (fst (snd (close_coding_interface stuck_page_agent)))
     = (True, stuck_page_agent\<lparr>is_browser_ready := False\<rparr>, [EClose Page])"
    by blast
  from first second third fourth show ?thesis by simp
qed

text \<open>
  C10 as stated fails: the first close returns \<open>True\<close> although \<open>page.close()\<close> raised,
  and the close after it tears down again and leaves page, browser and client set.
\<close>

theorem second_close_repeats_failed_teardown:
  "fst (close_coding_interface stuck_page_agent) = True
   \<and> close_coding_interface (fst (snd (close_coding_interface stuck_page_agent)))
     = (True,
        \<lparr> botright_client = Some (live_handle 1), browser = Some (live_handle 2),
          page = Some \<lparr> hid = 3, close_result = Inl (Exception ''Target closed'') \<rparr>,
          is_browser_ready = False, repo_url = None \<rparr>,
        [EClose Page])"
  by (simp add: close_coding_interface_def cleanup_browser_def cleanup_page_def
      stuck_page_agent_def open_agent_def)

text \<open>
  C6. \<open>open_coding_interface\<close> on a fresh agent. When every \<open>page.goto\<close> raises, or when
  the setup hook returns \<open>False\<close>, it returns \<open>False\<close> with client, browser and page still
  set and no \<open>close()\<close> called. Only the \<open>except\<close> path (here: a setup hook that raises)
  runs \<open>_cleanup_browser\<close>. And a close in which \<open>page.close()\<close> raises returns \<open>True\<close>
  with the browser and the client not closed.
\<close>

theorem open_failure_keeps_browser:
  "open_coding_interface init_agent failing_open_env ''https://agent.example'' (\<lambda>ag. ret True)
     = (False,
        \<lparr> botright_client = Some (live_handle 1), browser = Some (live_handle 2),
          page = Some (live_handle 3), is_browser_ready = False, repo_url = None \<rparr>,
        [ENew Client, ENew Browser, ENew Page,
         EGoto ''https://agent.example'', ETimeout 2000,
         EGoto ''https://agent.example'', ETimeout 2000,
         EGoto ''https://agent.example''])
   \<and> open_coding_interface init_agent working_open_env ''https://agent.example'' (\<lambda>ag. ret False)
     = (False,
        \<lparr> botright_client = Some (live_handle 1), browser = Some (live_handle 2),
          page = Some (live_handle 3), is_browser_ready = False, repo_url = None \<rparr>,
        [ENew Client, ENew Browser, ENew Page, EGoto ''https://agent.example''])
   \<and> open_coding_interface init_agent working_open_env ''https://agent.example''
        (\<lambda>ag. raise (Exception ''setup raised''))
     = (False, init_agent,
        [ENew Client, ENew Browser, ENew Page, EGoto ''https://agent.example'',
         EClose Page, EClose Browser, EClose Client])
   \<and> close_coding_interface
        (open_agent\<lparr> page := Some \<lparr> hid = 3, close_result = Inl (Exception ''Target closed'') \<rparr> \<rparr>)
     = (True,
        \<lparr> botright_client = Some (live_handle 1), browser = Some (live_handle 2),
          page = Some \<lparr> hid = 3, close_result = Inl (Exception ''Target closed'') \<rparr>,
          is_browser_ready = False, repo_url = None \<rparr>,
        [EClose Page])"
  by (simp add: open_coding_interface_def close_coding_interface_def open_agent_def ensure_client_def ensure_browser_def open_failed_def
      robust_navigate_def navigate_loop.simps effective_retries_def RETRY_COUNT_def RETRY_DELAY_def
      init_agent_def failing_open_env_def working_open_env_def live_handle_def act_defs
      cleanup_browser_def cleanup_page_def cleanup_browser_handle_def cleanup_client_def)

lemma fill_attempt_match:
  "page ag \<noteq> None \<Longrightarrow> readback_matches ob t \<Longrightarrow>
   fill_attempt ag ob sel t = (Inr True, fill_calls sel t)"
  by (auto simp: fill_attempt_def readback_matches_def fill_reaches_readback_def readback_def
      actionable_obs_def is_actionable_def fill_calls_def act_defs
      split: sum.splits option.splits)

lemma fill_attempt_differs:
  "page ag \<noteq> None \<Longrightarrow> readback_differs ob t \<Longrightarrow>
   \<exists>e. fill_attempt ag ob sel t = (Inl e, fill_calls sel t)"
  by (auto simp: fill_attempt_def readback_differs_def fill_reaches_readback_def readback_def
      actionable_obs_def is_actionable_def fill_calls_def act_defs
      split: sum.splits option.splits)

lemma fill_calls_counts [simp]:
  "attempts_made (fill_calls sel t) = 1" "retry_delays (fill_calls sel t) = 0"
  by (simp_all add: fill_calls_def attempts_made_def retry_delays_def)

lemma effective_retries_None [simp]: "effective_retries None = 3"
  by (simp add: effective_retries_def RETRY_COUNT_def)

text \<open>
  C5. \<open>_robust_fill_input\<close> reads the value back after every fill and compares it with
  the intended text. A read-back equal to the text on the first attempt returns \<open>True\<close>
  with that one attempt and no delay. A read-back that differs makes the attempt fail like
  any other failed attempt: it is never a success, it is followed by the retry delay and
  the next attempt while the budget lasts, and the operation returns \<open>False\<close> when it was
  the last attempt allowed. If every read-back differs, the result is \<open>False\<close> after \<open>n\<close>
  attempts.
\<close>

theorem fill_readback_verified:
  assumes pg: "page ag \<noteq> None"
  shows "(readback_matches (env 0) t \<and> 1 \<le> effective_retries mr \<longrightarrow>
            robust_fill_input ag env sel t mr = (True, fill_calls sel t))
       \<and> (readback_differs (env a) t \<and> int a < n \<longrightarrow>
            fst (fill_attempt ag (env a) sel t) \<noteq> Inr True
            \<and> robust_fill_loop ag env sel t n a =
               (if int a < n - 1
                then (fst (robust_fill_loop ag env sel t n (Suc a)),
                      fill_calls sel t @ [ETimeout RETRY_DELAY]
                        @ snd (robust_fill_loop ag env sel t n (Suc a)))
                else (False, fill_calls sel t)))
       \<and> (1 \<le> n \<and> (\<forall>i. int i < n \<longrightarrow> readback_differs (env i) t) \<longrightarrow>
            fst (robust_fill_input ag env sel t (Some n)) = False
            \<and> attempts_made (snd (robust_fill_input ag env sel t (Some n))) = nat n
            \<and> retry_delays (snd (robust_fill_input ag env sel t (Some n))) = nat n - 1)"
proof -
  have one: "readback_matches (env 0) t \<and> 1 \<le> effective_retries mr \<longrightarrow>
            robust_fill_input ag env sel t mr = (True, fill_calls sel t)"
    using fill_attempt_match [OF pg, of "env 0" t sel]
    by (simp add: robust_fill_input_def robust_fill_loop.simps [of _ _ _ _ _ 0])
  have two: "readback_differs (env a) t \<and> int a < n \<longrightarrow>
            fst (fill_attempt ag (env a) sel t) \<noteq> Inr True
            \<and> robust_fill_loop ag env sel t n a =
               (if int a < n - 1
                then (fst (robust_fill_loop ag env sel t n (Suc a)),
                      fill_calls sel t @ [ETimeout RETRY_DELAY]
                        @ snd (robust_fill_loop ag env sel t n (Suc a)))
                else (False, fill_calls sel t))"
  proof (intro impI, elim conjE)
    assume d: "readback_differs (env a) t" and a: "int a < n"
    from fill_attempt_differs [OF pg d] obtain e where
      att: "fill_attempt ag (env a) sel t = (Inl e, fill_calls sel t)" by blast
    show "fst (fill_attempt ag (env a) sel t) \<noteq> Inr True
            \<and> robust_fill_loop ag env sel t n a =
               (if int a < n - 1
                then (fst (robust_fill_loop ag env sel t n (Suc a)),
                      fill_calls sel t @ [ETimeout RETRY_DELAY]
                        @ snd (robust_fill_loop ag env sel t n (Suc a)))
                else (False, fill_calls sel t))"
      using att a pg
      by (simp add: robust_fill_loop.simps [of ag env sel t n a] split: prod.splits)
  qed
  have three: "1 \<le> n \<and> (\<forall>i. int i < n \<longrightarrow> readback_differs (env i) t) \<longrightarrow>
            fst (robust_fill_input ag env sel t (Some n)) = False
            \<and> attempts_made (snd (robust_fill_input ag env sel t (Some n))) = nat n
            \<and> retry_delays (snd (robust_fill_input ag env sel t (Some n))) = nat n - 1"
  proof (intro impI, elim conjE)
    assume n: "1 \<le> n" and all: "\<forall>i. int i < n \<longrightarrow> readback_differs (env i) t"
    have att: "\<forall>i. int i < n \<longrightarrow> (\<exists>e. fill_attempt ag (env i) sel t = (Inl e, fill_calls sel t))"
      using fill_attempt_differs [OF pg] all by blast
    then have fi: "\<forall>i. int i < n \<longrightarrow> isl (fst (fill_attempt ag (env i) sel t))"
      by (metis fst_conv sum.disc(1))
    have cnt: "\<forall>i. int i < n \<longrightarrow> attempts_made (snd (fill_attempt ag (env i) sel t)) = 1
                \<and> retry_delays (snd (fill_attempt ag (env i) sel t)) = 0"
      using att by (metis snd_conv fill_calls_counts)
    have f: "robust_fill_input ag env sel t (Some n)
           = (False, interleaved (\<lambda>i. snd (fill_attempt ag (env i) sel t)) n)"
      using fill_loop_fails [OF pg, of 0 n env sel t] n fi
      by (simp add: robust_fill_input_def effective_retries_pos interleaved_def)
    show "fst (robust_fill_input ag env sel t (Some n)) = False
            \<and> attempts_made (snd (robust_fill_input ag env sel t (Some n))) = nat n
            \<and> retry_delays (snd (robust_fill_input ag env sel t (Some n))) = nat n - 1"
      using f interleaved_counts [OF n cnt] by simp
  qed
  from one two three show ?thesis by blast
qed


text \<open>An input that echoes the text, and one that appends a character to it.\<close>

theorem fill_readback_verified_witness:
  "robust_fill_input open_agent (\<lambda>i. found good_element) ''#in'' ''hi'' None
     = (True, fill_calls ''#in'' ''hi'')
   \<and> robust_fill_loop open_agent (\<lambda>i. found garbling_element) ''#in'' ''hi'' 3 0
     = (fst (robust_fill_loop open_agent (\<lambda>i. found garbling_element) ''#in'' ''hi'' 3 (Suc 0)),
        fill_calls ''#in'' ''hi'' @ [ETimeout RETRY_DELAY]
          @ snd (robust_fill_loop open_agent (\<lambda>i. found garbling_element) ''#in'' ''hi'' 3 (Suc 0)))
   \<and> fst (robust_fill_input open_agent (\<lambda>i. found garbling_element) ''#in'' ''hi'' (Some 3)) = False
   \<and> attempts_made (snd (robust_fill_input open_agent (\<lambda>i. found garbling_element)
                            ''#in'' ''hi'' (Some 3))) = 3"
proof -
  have pg: "page open_agent \<noteq> None" by (simp add: open_agent_def)
  have m: "readback_matches ((\<lambda>i. found good_element) 0) ''hi''"
    by (simp add: readback_matches_def fill_reaches_readback_def readback_def actionable_obs_def
        found_def good_element_def)
  have d: "readback_differs ((\<lambda>i. found garbling_element) i) ''hi''" for i :: nat
    by (simp add: readback_differs_def fill_reaches_readback_def readback_def actionable_obs_def
        found_def garbling_element_def good_element_def)
  have a: "robust_fill_input open_agent (\<lambda>i. found good_element) ''#in'' ''hi'' None
     = (True, fill_calls ''#in'' ''hi'')"
    using fill_readback_verified [OF pg, where env = "\<lambda>i. found good_element" and t = "''hi''"
      and mr = None and sel = "''#in''"] m by simp
  from fill_readback_verified [OF pg, where env = "\<lambda>i. found garbling_element" and t = "''hi''"
      and a = 0 and n = 3 and sel = "''#in''"] d
  have b: "robust_fill_loop open_agent (\<lambda>i. found garbling_element) ''#in'' ''hi'' 3 0
     = (fst (robust_fill_loop open_agent (\<lambda>i. found garbling_element) ''#in'' ''hi'' 3 (Suc 0)),
        fill_calls ''#in'' ''hi'' @ [ETimeout RETRY_DELAY]
          @ snd (robust_fill_loop open_agent (\<lambda>i. found garbling_element) ''#in'' ''hi'' 3 (Suc 0)))"
    and c: "fst (robust_fill_input open_agent (\<lambda>i. found garbling_element) ''#in'' ''hi'' (Some 3)) = False"
    and e: "attempts_made (snd (robust_fill_input open_agent (\<lambda>i. found garbling_element)
                            ''#in'' ''hi'' (Some 3))) = 3"
    by simp_all
  from a b c e show ?thesis by blast
qed

lemma click_attempt_no_js: "EJsClick s \<notin> set (snd (click_attempt ag ob sel d))"
  by (auto simp: click_attempt_def is_actionable_def act_defs split: sum.splits option.splits)

lemma click_loop_no_js: "EJsClick s \<notin> set (snd (robust_click_loop ag env sel d n a))"
proof (induction ag env sel d n a rule: robust_click_loop.induct)
  case (1 ag env sel d n a)
  show ?case
  proof (cases "click_attempt ag (env a) sel d")
    case (Pair r t)
    then have t: "EJsClick s \<notin> set t" using click_attempt_no_js [of s ag "env a" sel d] by simp
    show ?thesis
    proof (cases r)
      case (Inr b)
      with Pair t show ?thesis by (simp add: robust_click_loop.simps [of ag env sel d n a])
    next
      case (Inl e)
      show ?thesis
      proof (cases "int a < n \<and> int a < n - 1 \<and> page ag \<noteq> None")
        case True
        then have "EJsClick s \<notin> set (snd (robust_click_loop ag env sel d n (Suc a)))"
          using "1.IH" [of "Inl e" t e] Pair Inl by simp
        with True Pair Inl t show ?thesis
          by (auto simp add: robust_click_loop.simps [of ag env sel d n a] split: prod.splits)
      next
        case False
        with Pair Inl t show ?thesis
          by (auto simp add: robust_click_loop.simps [of ag env sel d n a])
      qed
    qed
  qed
qed

lemma click_attempt_raises:
  "page ag \<noteq> None \<Longrightarrow> click_raises ob \<Longrightarrow>
   \<exists>e. click_attempt ag ob sel d = (Inl e, click_calls sel)"
  by (auto simp: click_attempt_def click_raises_def actionable_obs_def is_actionable_def
      click_calls_def act_defs isl_def split: sum.splits option.splits)

text \<open>
  C7, as the code has it. \<open>_robust_click_element\<close> never issues a JavaScript click: an
  attempt whose \<open>click()\<close> raises has failed, and is followed by the retry delay and the
  next attempt, or by \<open>False\<close> when it was the last. The fallback is in the single-shot
  \<open>_scroll_and_click\<close>: when the element is visible and enabled after scrolling and
  \<open>click()\<close> raises, it evaluates \<open>element.click()\<close> in the page on the same element.
\<close>

theorem js_fallback_only_in_scroll_and_click:
  assumes pg: "page ag \<noteq> None"
  shows "EJsClick s \<notin> set (snd (robust_click_element ag env sel d mr))
       \<and> (click_raises (env a) \<and> int a < n \<longrightarrow>
            robust_click_loop ag env sel d n a =
               (if int a < n - 1
                then (fst (robust_click_loop ag env sel d n (Suc a)),
                      click_calls sel @ [ETimeout RETRY_DELAY]
                        @ snd (robust_click_loop ag env sel d n (Suc a)))
                else (False, click_calls sel)))
       \<and> (el_scroll el = Inr () \<and> el_is_visible el = Inr True \<and> el_is_enabled el = Inr True
            \<and> isl (el_click el) \<longrightarrow>
            scroll_and_click ag el sel d
              = (Inr (), [EScroll sel, ETimeout ELEMENT_STABILITY_TIMEOUT, EIsVisible sel,
                          EIsEnabled sel, EClick sel, EJsClick sel]))"
proof -
  have one: "EJsClick s \<notin> set (snd (robust_click_element ag env sel d mr))"
    by (simp add: robust_click_element_def click_loop_no_js)
  have two: "click_raises (env a) \<and> int a < n \<longrightarrow>
            robust_click_loop ag env sel d n a =
               (if int a < n - 1
                then (fst (robust_click_loop ag env sel d n (Suc a)),
                      click_calls sel @ [ETimeout RETRY_DELAY]
                        @ snd (robust_click_loop ag env sel d n (Suc a)))
                else (False, click_calls sel))"
  proof (intro impI, elim conjE)
    assume r: "click_raises (env a)" and a: "int a < n"
    from click_attempt_raises [OF pg r] obtain e where
      att: "click_attempt ag (env a) sel d = (Inl e, click_calls sel)" by blast
    show "robust_click_loop ag env sel d n a =
               (if int a < n - 1
                then (fst (robust_click_loop ag env sel d n (Suc a)),
                      click_calls sel @ [ETimeout RETRY_DELAY]
                        @ snd (robust_click_loop ag env sel d n (Suc a)))
                else (False, click_calls sel))"
      using att a pg
      by (simp add: robust_click_loop.simps [of ag env sel d n a] split: prod.splits)
  qed
  have three: "el_scroll el = Inr () \<and> el_is_visible el = Inr True \<and> el_is_enabled el = Inr True
            \<and> isl (el_click el) \<longrightarrow>
            scroll_and_click ag el sel d
              = (Inr (), [EScroll sel, ETimeout ELEMENT_STABILITY_TIMEOUT, EIsVisible sel,
                          EIsEnabled sel, EClick sel, EJsClick sel])"
    using pg
    by (cases "el_js_click el")
       (auto simp: scroll_and_click_def is_actionable_def act_defs isl_def)
  from one two three show ?thesis by blast
qed

text \<open>
  C7 as stated fails on \<open>_robust_click_element\<close>: with an element that is actionable but
  whose \<open>click()\<close> raises each time (an overlay intercepts it), the three attempts end
  with \<open>click()\<close>, no JavaScript click is made, and the result is \<open>False\<close>.
\<close>

theorem robust_click_has_no_js_fallback:
  "robust_click_element open_agent (\<lambda>i. found intercepted_element) ''#go'' ''go'' None
     = (False,
        [EWaitSelector ''#go'' ''visible'' 30000, EQuery ''#go'', EIsVisible ''#go'',
         EIsEnabled ''#go'', EScroll ''#go'', ETimeout 1000, EClick ''#go'', ETimeout 2000,
         EWaitSelector ''#go'' ''visible'' 30000, EQuery ''#go'', EIsVisible ''#go'',
         EIsEnabled ''#go'', EScroll ''#go'', ETimeout 1000, EClick ''#go'', ETimeout 2000,
         EWaitSelector ''#go'' ''visible'' 30000, EQuery ''#go'', EIsVisible ''#go'',
         EIsEnabled ''#go'', EScroll ''#go'', ETimeout 1000, EClick ''#go''])"
  by (simp add: robust_click_element_def robust_click_loop.simps click_attempt_def
      is_actionable_def act_defs open_agent_def found_def intercepted_element_def good_element_def
      DEFAULT_TIMEOUT_def RETRY_DELAY_def ELEMENT_STABILITY_TIMEOUT_def)

text \<open>The same intercepted element under \<open>_scroll_and_click\<close>, and under one robust attempt.\<close>

theorem js_fallback_only_in_scroll_and_click_witness:
  "scroll_and_click open_agent intercepted_element ''#repo'' ''repository''
     = (Inr (), [EScroll ''#repo'', ETimeout 1000, EIsVisible ''#repo'', EIsEnabled ''#repo'',
                 EClick ''#repo'', EJsClick ''#repo''])
   \<and> fst (robust_click_loop open_agent (\<lambda>i. found intercepted_element) ''#go'' ''go'' 1 0) = False"
proof -
  have pg: "page open_agent \<noteq> None" by (simp add: open_agent_def)
  have r: "click_raises ((\<lambda>i. found intercepted_element) 0)"
    by (simp add: click_raises_def actionable_obs_def found_def intercepted_element_def
        good_element_def)
  have el: "el_scroll intercepted_element = Inr () \<and> el_is_visible intercepted_element = Inr True
     \<and> el_is_enabled intercepted_element = Inr True \<and> isl (el_click intercepted_element)"
    by (simp add: intercepted_element_def good_element_def)
  from js_fallback_only_in_scroll_and_click [OF pg, where el = intercepted_element
      and sel = "''#repo''" and d = "''repository''"] el
  have a: "scroll_and_click open_agent intercepted_element ''#repo'' ''repository''
     = (Inr (), [EScroll ''#repo'', ETimeout 1000, EIsVisible ''#repo'', EIsEnabled ''#repo'',
                 EClick ''#repo'', EJsClick ''#repo''])"
    by (simp add: ELEMENT_STABILITY_TIMEOUT_def)
  from js_fallback_only_in_scroll_and_click [OF pg, where env = "\<lambda>i. found intercepted_element"
      and a = 0 and n = 1 and sel = "''#go''" and d = "''go''"] r
  have b: "fst (robust_click_loop open_agent (\<lambda>i. found intercepted_element) ''#go'' ''go'' 1 0) = False"
    by simp
  from a b show ?thesis by blast
qed

declare monitor_loop.simps [simp del]

lemma history_ok_initial: "history_ok (clock_start env) (initial_mon_state env)"
  by (simp add: history_ok_def initial_mon_state_def)

lemma monitor_poll_again:
  "history_ok start st \<Longrightarrow> monitor_poll cfg env st = (Again st', t) \<Longrightarrow> history_ok start st'"
  by (auto simp: monitor_poll_def history_ok_def Let_def split: prod.splits sum.splits if_splits)

lemma monitor_poll_completed:
  "history_ok start st \<Longrightarrow> monitor_poll cfg env st = (Completed st', t) \<Longrightarrow>
   history_ok start st' \<and> now st' - last_change_time st' \<ge> 10000 \<and> length (last_content st') > 100"
  by (auto simp: monitor_poll_def history_ok_def Let_def stable_content_duration_ms_def
      split: prod.splits sum.splits if_splits)

lemma monitor_loop_result:
  "history_ok (clock_start env) st \<Longrightarrow>
   (case fst (monitor_loop cfg env timeout_ms st) of
      Inr st' \<Rightarrow> history_ok (clock_start env) st' \<and> now st' - last_change_time st' \<ge> 10000
                 \<and> length (last_content st') > 100
    | Inl e \<Rightarrow> e = timed_out cfg timeout_ms)"
proof (induction cfg env timeout_ms st rule: monitor_loop.induct)
  case (1 cfg env timeout_ms st)
  show ?case
  proof (cases "now st - clock_start env < timeout_ms")
    case False
    then show ?thesis by (simp add: monitor_loop.simps [of cfg env timeout_ms st])
  next
    case True
    obtain r t where p: "monitor_poll cfg env st = (r, t)" by (cases "monitor_poll cfg env st")
    show ?thesis
    proof (cases r)
      case (Completed st')
      with p True monitor_poll_completed [OF "1.prems", where cfg = cfg and st' = st' and t = t] show ?thesis
        by (simp add: monitor_loop.simps [of cfg env timeout_ms st])
    next
      case (Again st')
      with p have ok: "history_ok (clock_start env) st'"
        using monitor_poll_again [OF "1.prems"] by simp
      from "1.IH" [OF True p [symmetric] Again ok] p Again True show ?thesis
        by (auto simp add: monitor_loop.simps [of cfg env timeout_ms st] split: prod.splits)
    qed
  qed
qed


lemma monitor_output_changes_result:
  "(case fst (monitor_output_changes ag cfg env timeout_ms) of
      Inr st \<Rightarrow> history_ok (clock_start env) st \<and> now st - last_change_time st \<ge> 10000
                 \<and> length (last_content st) > 100
    | Inl e \<Rightarrow> e = timed_out cfg timeout_ms)"
  using monitor_loop_result [OF history_ok_initial, where cfg = cfg and timeout_ms = timeout_ms and env = env]
  by (simp add: monitor_output_changes_def raise_def)

lemma wait_for_web_completion_propagates:
  assumes "fst (monitor_output_changes ag cfg (monitor env) (agent_timeout_seconds cfg * 1000)) = Inl e"
    and "page ag \<noteq> None"
    and "\<not> truthy (loading_selector cfg) \<or> isl (loading_hidden env)"
  shows "fst (wait_for_web_completion ag cfg env) = Inl (timed_out cfg (agent_timeout_seconds cfg * 1000))"
proof -
  from assms(1) monitor_output_changes_result [where ag = ag and cfg = cfg and env = "monitor env"
      and timeout_ms = "agent_timeout_seconds cfg * 1000"]
  have e: "e = timed_out cfg (agent_timeout_seconds cfg * 1000)" by simp
  obtain t where m: "monitor_output_changes ag cfg (monitor env) (agent_timeout_seconds cfg * 1000)
      = (Inl (timed_out cfg (agent_timeout_seconds cfg * 1000)), t)"
    using assms(1) e by (cases "monitor_output_changes ag cfg (monitor env) (agent_timeout_seconds cfg * 1000)") auto
  show ?thesis using assms(2,3) m
    by (auto simp: wait_for_web_completion_def Let_def act_defs truthy_def timed_out_def isl_def
        split: option.splits)
qed


lemma web_execute_prompt_fails:
  assumes "is_browser_ready ag" "page ag \<noteq> None"
    and "fst (send_prompt_to_web_interface ag cfg wenv (prompt @ save_instruction (output_file cfg))) = Inr ()"
    and "fst (wait_for_web_completion ag cfg wenv) = Inl e"
  shows "success (fst (web_execute_prompt ag cfg wenv prompt)) = False
       \<and> error_message (fst (web_execute_prompt ag cfg wenv prompt))
           = Some (''Failed to execute prompt: '' @ exn_str cfg e)"
proof -
  obtain t1 where s: "send_prompt_to_web_interface ag cfg wenv (prompt @ save_instruction (output_file cfg)) = (Inr (), t1)"
    using assms(3) by (cases "send_prompt_to_web_interface ag cfg wenv (prompt @ save_instruction (output_file cfg))") auto
  obtain t2 where w: "wait_for_web_completion ag cfg wenv = (Inl e, t2)"
    using assms(4) by (cases "wait_for_web_completion ag cfg wenv") auto
  show ?thesis using assms(1,2) s w
    by (auto simp add: web_execute_prompt_def thn_def)
qed

text \<open>
  C4. \<open>_monitor_output_changes\<close> returns (declares completion) only in a state where the
  clock is at least 10000 ms past the last change of the content it has read, and that
  content is longer than 100 characters. The last change is read off the history of
  samples: every sample that differs from the one before it moves it to that sample's
  reading. The function always ends, and when it does not return it raises
  \<open>AgentTimeoutException\<close>. \<open>_wait_for_web_completion\<close> re-raises exactly that exception,
  and \<open>execute_prompt\<close> then answers with \<open>success = False\<close> and the cause.
\<close>

theorem content_stability_monitor:
  "(case fst (monitor_output_changes ag cfg env timeout_ms) of
      Inr st \<Rightarrow> last_content st = newest_content (samples st)
               \<and> last_change_time st = last_change (clock_start env) (samples st)
               \<and> now st - last_change (clock_start env) (samples st) \<ge> stable_content_duration_ms
               \<and> length (newest_content (samples st)) > 100
    | Inl e \<Rightarrow> e = AgentTimeoutException (agent_name cfg) (timeout_seconds_of timeout_ms)
                      ''Web agent processing timed out'')
   \<and> (fst (monitor_output_changes ag cfg (monitor wenv) (agent_timeout_seconds cfg * 1000)) = Inl e
        \<and> page ag \<noteq> None \<and> (\<not> truthy (loading_selector cfg) \<or> isl (loading_hidden wenv))
      \<longrightarrow> fst (wait_for_web_completion ag cfg wenv) = Inl e)
   \<and> (is_browser_ready ag \<and> page ag \<noteq> None
        \<and> fst (send_prompt_to_web_interface ag cfg wenv (prompt @ save_instruction (output_file cfg)))
            = Inr ()
        \<and> fst (wait_for_web_completion ag cfg wenv) = Inl e
      \<longrightarrow> success (fst (web_execute_prompt ag cfg wenv prompt)) = False
          \<and> error_message (fst (web_execute_prompt ag cfg wenv prompt))
              = Some (''Failed to execute prompt: '' @ exn_str cfg e))"
proof -
  have one: "(case fst (monitor_output_changes ag cfg env timeout_ms) of
      Inr st \<Rightarrow> last_content st = newest_content (samples st)
               \<and> last_change_time st = last_change (clock_start env) (samples st)
               \<and> now st - last_change (clock_start env) (samples st) \<ge> stable_content_duration_ms
               \<and> length (newest_content (samples st)) > 100
    | Inl e \<Rightarrow> e = AgentTimeoutException (agent_name cfg) (timeout_seconds_of timeout_ms)
                      ''Web agent processing timed out'')"
    using monitor_output_changes_result [where ag = ag and cfg = cfg and env = env and timeout_ms = timeout_ms]
    by (auto simp: history_ok_def stable_content_duration_ms_def timed_out_def split: sum.splits)
  have two: "fst (monitor_output_changes ag cfg (monitor wenv) (agent_timeout_seconds cfg * 1000)) = Inl e
        \<and> page ag \<noteq> None \<and> (\<not> truthy (loading_selector cfg) \<or> isl (loading_hidden wenv))
      \<longrightarrow> fst (wait_for_web_completion ag cfg wenv) = Inl e"
  proof (intro impI, elim conjE)
    assume m: "fst (monitor_output_changes ag cfg (monitor wenv) (agent_timeout_seconds cfg * 1000)) = Inl e"
      and p: "page ag \<noteq> None" and l: "\<not> truthy (loading_selector cfg) \<or> isl (loading_hidden wenv)"
    from m monitor_output_changes_result [where ag = ag and cfg = cfg and env = "monitor wenv"
      and timeout_ms = "agent_timeout_seconds cfg * 1000"]
    have "e = timed_out cfg (agent_timeout_seconds cfg * 1000)" by simp
    with wait_for_web_completion_propagates [OF m p l]
    show "fst (wait_for_web_completion ag cfg wenv) = Inl e" by simp
  qed
  from one two web_execute_prompt_fails [of ag cfg wenv prompt e] show ?thesis by blast
qed

lemma steady_run:
  "fst (monitor_output_changes open_agent demo_config steady_output 60000)
     = Inr \<lparr> now = 10000, last_content = replicate 101 (CHR ''a''), last_change_time = 0,
             polls = 2,
             samples = [(10000, replicate 101 (CHR ''a'')), (5000, replicate 101 (CHR ''a'')),
                        (0, replicate 101 (CHR ''a''))] \<rparr>"
  by (simp add: monitor_output_changes_def open_agent_def monitor_loop.simps monitor_poll_def
      Let_def read_output_def act_defs steady_output_def good_element_def initial_mon_state_def
      demo_config_def check_interval_ms_def stable_content_duration_ms_def)

lemma empty_run:
  "fst (monitor_output_changes open_agent demo_config empty_output 10000)
     = Inl (AgentTimeoutException ''demo'' 10 ''Web agent processing timed out'')"
  by (simp add: monitor_output_changes_def open_agent_def monitor_loop.simps monitor_poll_def
      Let_def read_output_def act_defs empty_output_def initial_mon_state_def
      demo_config_def check_interval_ms_def stable_content_duration_ms_def timed_out_def
      timeout_seconds_of_def)

lemma demo_send:
  "fst (send_prompt_to_web_interface open_agent demo_config demo_web_env p) = Inr ()"
  by (simp add: send_prompt_to_web_interface_def lift_def robust_fill_input_def
      robust_click_element_def robust_fill_loop.simps robust_click_loop.simps fill_attempt_def
      click_attempt_def is_actionable_def act_defs open_agent_def demo_config_def demo_web_env_def
      found_def good_element_def split: prod.splits)

text \<open>
  Steady output of 101 characters is accepted at the third poll, 10 s after it was first
  seen; an output area that stays empty times the task out.
\<close>

theorem content_stability_monitor_witness:
  "(\<exists>st. fst (monitor_output_changes open_agent demo_config steady_output 60000) = Inr st
         \<and> now st - last_change 0 (samples st) \<ge> 10000 \<and> length (newest_content (samples st)) = 101)
   \<and> fst (wait_for_web_completion open_agent demo_config demo_web_env)
       = Inl (AgentTimeoutException ''demo'' 10 ''Web agent processing timed out'')
   \<and> success (fst (web_execute_prompt open_agent demo_config demo_web_env ''fix it'')) = False
   \<and> error_message (fst (web_execute_prompt open_agent demo_config demo_web_env ''fix it''))
       = Some ''Failed to execute prompt: Web agent processing timed out''"
proof -
  let ?e = "AgentTimeoutException ''demo'' 10 ''Web agent processing timed out''"
  have pg: "page open_agent \<noteq> None" and rd: "is_browser_ready open_agent"
    by (simp_all add: open_agent_def)
  have cs: "clock_start steady_output = 0" by (simp add: steady_output_def)
  have a: "\<exists>st. fst (monitor_output_changes open_agent demo_config steady_output 60000) = Inr st
         \<and> now st - last_change 0 (samples st) \<ge> 10000 \<and> length (newest_content (samples st)) = 101"
    using content_stability_monitor [where ag = open_agent and cfg = demo_config
        and env = steady_output and timeout_ms = 60000] steady_run cs
    by (simp add: stable_content_duration_ms_def)
  have m: "fst (monitor_output_changes open_agent demo_config (monitor demo_web_env)
             (agent_timeout_seconds demo_config * 1000)) = Inl ?e"
    using empty_run by (simp add: demo_web_env_def demo_config_def)
  have nl: "\<not> truthy (loading_selector demo_config) \<or> isl (loading_hidden demo_web_env)"
    by (simp add: truthy_def demo_config_def)
  have w: "fst (wait_for_web_completion open_agent demo_config demo_web_env) = Inl ?e"
    using content_stability_monitor [where ag = open_agent and cfg = demo_config
        and wenv = demo_web_env and e = ?e] m pg nl by blast
  have r: "success (fst (web_execute_prompt open_agent demo_config demo_web_env ''fix it'')) = False
     \<and> error_message (fst (web_execute_prompt open_agent demo_config demo_web_env ''fix it''))
       = Some (''Failed to execute prompt: '' @ exn_str demo_config ?e)"
    using content_stability_monitor [where ag = open_agent and cfg = demo_config
        and wenv = demo_web_env and e = ?e and prompt = "''fix it''"] demo_send w pg rd by blast
  have s: "exn_str demo_config ?e = ''Web agent processing timed out''"
    by (simp add: exn_str_def demo_config_def)
  from a w r s show ?thesis by simp
qed

lemma wait_for_element_robust_eq:
  "page ag \<noteq> None \<Longrightarrow>
   wait_for_element_robust ag out sel (Some ms) st
     = (Inr (\<not> isl out), [EWaitSelector sel st (if ms = 0 then DEFAULT_TIMEOUT else ms)])"
  by (cases out) (auto simp: wait_for_element_robust_def act_defs effective_timeout_def)

text \<open>
  C2, as the code has it. With a page open, \<open>_wait_for_completion\<close> returns normally in
  all three cases: the stop button never shows within 30 s; it shows and then hides; it
  shows and is still there when the 20 min wait for it to hide times out. In the last case
  the timeout is caught by the \<open>except\<close> of the function, so the trace and the result are
  those of a completed task. In \<open>_wait_for_web_completion\<close> a loading indicator that hides
  ends the wait, and one that does not hide in time hands over to the content monitor.
\<close>

theorem indicator_monitor_never_raises:
  assumes pg: "page ag \<noteq> None"
  shows "(isl (stop_appear env) \<longrightarrow>
            wait_for_completion ag env
              = (Inr (), [EWaitSelector STOP_BUTTON ''visible'' 30000, ETimeout 2000]))
       \<and> (stop_appear env = Inr () \<and> stop_hidden env = Inr () \<longrightarrow>
            wait_for_completion ag env
              = (Inr (), [EWaitSelector STOP_BUTTON ''visible'' 30000,
                          EWaitSelector STOP_BUTTON ''hidden'' 1200000, ETimeout 2000]))
       \<and> (stop_appear env = Inr () \<and> isl (stop_hidden env) \<longrightarrow>
            wait_for_completion ag env
              = (Inr (), [EWaitSelector STOP_BUTTON ''visible'' 30000,
                          EWaitSelector STOP_BUTTON ''hidden'' 1200000, ETimeout 2000]))
       \<and> (loading_selector cfg = Some ls \<and> ls \<noteq> [] \<and> loading_hidden wenv = Inr () \<longrightarrow>
            wait_for_web_completion ag cfg wenv
              = (Inr (), [EWaitSelector ls ''hidden'' (agent_timeout_seconds cfg * 1000)]))
       \<and> (loading_selector cfg = Some ls \<and> ls \<noteq> [] \<and> isl (loading_hidden wenv) \<longrightarrow>
            wait_for_web_completion ag cfg wenv
              = (case monitor_output_changes ag cfg (monitor wenv) (agent_timeout_seconds cfg * 1000) of
                   (Inr st, t) \<Rightarrow>
                     (Inr (), EWaitSelector ls ''hidden'' (agent_timeout_seconds cfg * 1000) # t)
                 | (Inl e, t) \<Rightarrow>
                     (Inl e, EWaitSelector ls ''hidden'' (agent_timeout_seconds cfg * 1000) # t)))"
proof -
  have one: "isl (stop_appear env) \<longrightarrow>
            wait_for_completion ag env
              = (Inr (), [EWaitSelector STOP_BUTTON ''visible'' 30000, ETimeout 2000])"
    using pg by (auto simp: wait_for_completion_def wait_for_element_robust_eq on_page_def act_defs)
  have two: "stop_appear env = Inr () \<and> stop_hidden env = Inr () \<longrightarrow>
            wait_for_completion ag env
              = (Inr (), [EWaitSelector STOP_BUTTON ''visible'' 30000,
                          EWaitSelector STOP_BUTTON ''hidden'' 1200000, ETimeout 2000])"
    using pg by (auto simp: wait_for_completion_def wait_for_element_robust_eq on_page_def act_defs)
  have three: "stop_appear env = Inr () \<and> isl (stop_hidden env) \<longrightarrow>
            wait_for_completion ag env
              = (Inr (), [EWaitSelector STOP_BUTTON ''visible'' 30000,
                          EWaitSelector STOP_BUTTON ''hidden'' 1200000, ETimeout 2000])"
    using pg by (auto simp: wait_for_completion_def wait_for_element_robust_eq on_page_def act_defs isl_def)
  have four: "loading_selector cfg = Some ls \<and> ls \<noteq> [] \<and> loading_hidden wenv = Inr () \<longrightarrow>
            wait_for_web_completion ag cfg wenv
              = (Inr (), [EWaitSelector ls ''hidden'' (agent_timeout_seconds cfg * 1000)])"
    using pg by (auto simp: wait_for_web_completion_def Let_def act_defs)
  have five: "loading_selector cfg = Some ls \<and> ls \<noteq> [] \<and> isl (loading_hidden wenv) \<longrightarrow>
            wait_for_web_completion ag cfg wenv
              = (case monitor_output_changes ag cfg (monitor wenv) (agent_timeout_seconds cfg * 1000) of
                   (Inr st, t) \<Rightarrow>
                     (Inr (), EWaitSelector ls ''hidden'' (agent_timeout_seconds cfg * 1000) # t)
                 | (Inl e, t) \<Rightarrow>
                     (Inl e, EWaitSelector ls ''hidden'' (agent_timeout_seconds cfg * 1000) # t))"
  proof (intro impI, elim conjE)
    assume l: "loading_selector cfg = Some ls" "ls \<noteq> []" "isl (loading_hidden wenv)"
    obtain r t where m: "monitor_output_changes ag cfg (monitor wenv) (agent_timeout_seconds cfg * 1000) = (r, t)"
      by (cases "monitor_output_changes ag cfg (monitor wenv) (agent_timeout_seconds cfg * 1000)")
    show "wait_for_web_completion ag cfg wenv
              = (case monitor_output_changes ag cfg (monitor wenv) (agent_timeout_seconds cfg * 1000) of
                   (Inr st, t) \<Rightarrow>
                     (Inr (), EWaitSelector ls ''hidden'' (agent_timeout_seconds cfg * 1000) # t)
                 | (Inl e, t) \<Rightarrow>
                     (Inl e, EWaitSelector ls ''hidden'' (agent_timeout_seconds cfg * 1000) # t))"
    proof (cases r)
      case (Inr st)
      with l m pg show ?thesis
        by (auto simp: wait_for_web_completion_def Let_def act_defs isl_def)
    next
      case (Inl e)
      with m monitor_output_changes_result [where ag = ag and cfg = cfg and env = "monitor wenv"
          and timeout_ms = "agent_timeout_seconds cfg * 1000"]
      have "e = timed_out cfg (agent_timeout_seconds cfg * 1000)" by simp
      with Inl l m pg show ?thesis
        by (auto simp: wait_for_web_completion_def Let_def act_defs isl_def timed_out_def)
    qed
  qed
  from one two three four five show ?thesis by blast
qed

text \<open>
  C2 as stated fails in its third part: the stop button shows and never hides, and
  \<open>_wait_for_completion\<close> returns normally, raising nothing.
\<close>

theorem stuck_indicator_counts_as_done:
  "wait_for_completion open_agent busy_forever
     = (Inr (), [EWaitSelector STOP_BUTTON ''visible'' 30000,
                 EWaitSelector STOP_BUTTON ''hidden'' 1200000, ETimeout 2000])"
  by (simp add: wait_for_completion_def wait_for_element_robust_def on_page_def act_defs
      effective_timeout_def open_agent_def busy_forever_def codex_page_def)

text \<open>The three cases on the Codex page, and a spinner that hides.\<close>

theorem indicator_monitor_never_raises_witness:
  "wait_for_completion open_agent codex_page
     = (Inr (), [EWaitSelector STOP_BUTTON ''visible'' 30000,
                 EWaitSelector STOP_BUTTON ''hidden'' 1200000, ETimeout 2000])
   \<and> wait_for_completion open_agent
        (codex_page\<lparr> stop_appear := Inl (Exception ''Timeout 30000ms exceeded'') \<rparr>)
     = (Inr (), [EWaitSelector STOP_BUTTON ''visible'' 30000, ETimeout 2000])
   \<and> fst (wait_for_completion open_agent
        (codex_page\<lparr> stop_hidden := Inl (Exception ''Timeout 1200000ms exceeded'') \<rparr>)) = Inr ()
   \<and> wait_for_web_completion open_agent (demo_config\<lparr> loading_selector := Some ''.spinner'' \<rparr>)
        demo_web_env
     = (Inr (), [EWaitSelector ''.spinner'' ''hidden'' 10000])"
proof -
  have pg: "page open_agent \<noteq> None" by (simp add: open_agent_def)
  note t = indicator_monitor_never_raises [OF pg]
  have a: "wait_for_completion open_agent codex_page
     = (Inr (), [EWaitSelector STOP_BUTTON ''visible'' 30000,
                 EWaitSelector STOP_BUTTON ''hidden'' 1200000, ETimeout 2000])"
    using t [where env = codex_page] by (simp add: codex_page_def)
  have b: "wait_for_completion open_agent
        (codex_page\<lparr> stop_appear := Inl (Exception ''Timeout 30000ms exceeded'') \<rparr>)
     = (Inr (), [EWaitSelector STOP_BUTTON ''visible'' 30000, ETimeout 2000])"
    using t [where env = "codex_page\<lparr> stop_appear := Inl (Exception ''Timeout 30000ms exceeded'') \<rparr>"]
    by simp
  have c: "fst (wait_for_completion open_agent
        (codex_page\<lparr> stop_hidden := Inl (Exception ''Timeout 1200000ms exceeded'') \<rparr>)) = Inr ()"
    using t [where env = "codex_page\<lparr> stop_hidden := Inl (Exception ''Timeout 1200000ms exceeded'') \<rparr>"]
    by (simp add: codex_page_def)
  have d: "wait_for_web_completion open_agent (demo_config\<lparr> loading_selector := Some ''.spinner'' \<rparr>)
        demo_web_env
     = (Inr (), [EWaitSelector ''.spinner'' ''hidden'' 10000])"
    using t [where cfg = "demo_config\<lparr> loading_selector := Some ''.spinner'' \<rparr>"
        and ls = "''.spinner''" and wenv = demo_web_env]
    by (simp add: demo_web_env_def demo_config_def)
  from a b c d show ?thesis by blast
qed

lemma setup_failed_agent_eq:
  "setup_failed_agent = \<lparr> botright_client = Some (live_handle 1), browser = Some (live_handle 2),
          page = Some (live_handle 3), is_browser_ready = False, repo_url = None \<rparr>"
  by (simp add: setup_failed_agent_def open_coding_interface_def ensure_client_def ensure_browser_def
      open_failed_def robust_navigate_def navigate_loop.simps effective_retries_def RETRY_COUNT_def
      init_agent_def working_open_env_def live_handle_def act_defs codex_setup_web_interface_def)

lemma catch_ret_total: "\<not> isl (fst (catch m (\<lambda>e. ret d)))"
  by (auto simp: catch_def ret_def split: prod.splits sum.splits)

lemma records_final:
  "records_pr \<lparr> content = final_content oc pr, success = s, error_message = e \<rparr> = truthy pr
   \<and> records_output \<lparr> content = final_content oc pr, success = s, error_message = e \<rparr> = truthy oc"
proof -
  have a: "truthy x = (\<exists>c cs. x = Some (c # cs))" for x :: "string option"
    by (cases x) (auto simp: truthy_def neq_Nil_conv)
  show ?thesis
    by (cases oc; cases pr)
       (auto simp: records_pr_def records_output_def final_content_def response_parts_def
         status_message_def truthy_def with_output_and_pr_def with_output_def nothing_captured_def
         neq_Nil_conv)
qed


lemma best_effort_never_raise:
  "\<not> isl (fst (extract_output_content ag env))"
  "\<not> isl (fst (try_create_pr ag env))"
  "\<not> isl (fst (extract_pr_url ag env))"
  "\<not> isl (fst (focus_chat_input ag env))"
  "\<not> isl (fst (solve_captcha_if_present ag cap))"
  by (simp_all add: extract_output_content_def try_create_pr_def extract_pr_url_def
      focus_chat_input_def solve_captcha_if_present_def catch_ret_total)

lemma wait_for_completion_returns:
  "page ag \<noteq> None \<Longrightarrow> \<not> isl (fst (wait_for_completion ag env))"
proof -
  assume pg: "page ag \<noteq> None"
  obtain r t where c: "catch
            (thn (wait_for_element_robust ag (stop_appear env) STOP_BUTTON (Some 30000) ''visible'')
               (\<lambda>stop_button_appeared.
             if stop_button_appeared
             then on_page ag (call (EWaitSelector STOP_BUTTON ''hidden'' 1200000) (stop_hidden env))
             else ret ()))
            (\<lambda>e. ret ()) = (r, t)" (is "?c = _")
    by (cases ?c)
  from catch_ret_total [of _ "()"] c have "\<not> isl r" by (metis fst_conv)
  then show ?thesis using c pg
    by (cases r) (auto simp: wait_for_completion_def thn_def on_page_def sleep_def call_def)
qed

lemma send_prompt_needs_page: "page ag = None \<Longrightarrow> fst (send_prompt ag env p) \<noteq> Inr ()"
  by (simp add: send_prompt_def lift_def robust_fill_input_def robust_fill_loop.simps
      fill_attempt_def act_defs)

lemma complete_task_returns:
  assumes pg: "page ag \<noteq> None"
  shows "fst (complete_task_and_get_pr ag env) = Inr (captured_output ag env, captured_pr ag env)"
proof -
  obtain t1 where f: "focus_chat_input ag env = (Inr (), t1)"
    using best_effort_never_raise(4) [of ag env]
    by (cases "focus_chat_input ag env"; cases "fst (focus_chat_input ag env)") auto
  obtain t2 where w: "wait_for_completion ag env = (Inr (), t2)"
    using wait_for_completion_returns [OF pg, of env]
    by (cases "wait_for_completion ag env"; cases "fst (wait_for_completion ag env)") auto
  obtain oc t3 where o: "extract_output_content ag env = (Inr oc, t3)"
    using best_effort_never_raise(1) [of ag env]
    by (cases "extract_output_content ag env"; cases "fst (extract_output_content ag env)") auto
  obtain t4 where c: "try_create_pr ag env = (Inr (), t4)"
    using best_effort_never_raise(2) [of ag env]
    by (cases "try_create_pr ag env"; cases "fst (try_create_pr ag env)") auto
  obtain pr t5 where p: "extract_pr_url ag env = (Inr pr, t5)"
    using best_effort_never_raise(3) [of ag env]
    by (cases "extract_pr_url ag env"; cases "fst (extract_pr_url ag env)") auto
  show ?thesis using f w o c p
    by (simp add: complete_task_and_get_pr_def thn_def ret_def captured_output_def captured_pr_def)
qed

text \<open>
  C9. The best-effort steps (captcha solving, output extraction, PR creation, PR link
  extraction) never raise, whatever the page does. So whenever the prompt was sent and
  the created task was opened, \<open>execute_prompt\<close> of the Codex agent answers with
  \<open>success = True\<close> and no error, and the content of the answer tells which of output
  text and PR link were captured: the status line and the \<open>AGENT OUTPUT:\<close> block.
\<close>

theorem best_effort_steps_do_not_fail_the_task:
  assumes sent: "fst (send_prompt ag env prompt) = Inr ()"
    and opened: "fst (open_created_task ag env) = Inr True"
  shows "success (fst (codex_execute_prompt ag cfg env prompt)) = True
       \<and> error_message (fst (codex_execute_prompt ag cfg env prompt)) = None
       \<and> records_output (fst (codex_execute_prompt ag cfg env prompt))
           = truthy (captured_output ag env)
       \<and> records_pr (fst (codex_execute_prompt ag cfg env prompt)) = truthy (captured_pr ag env)
       \<and> \<not> isl (fst (extract_output_content ag env))
       \<and> \<not> isl (fst (try_create_pr ag env))
       \<and> \<not> isl (fst (extract_pr_url ag env))
       \<and> \<not> isl (fst (solve_captcha_if_present ag cap))"
proof -
  have pg: "page ag \<noteq> None" using sent send_prompt_needs_page [of ag env prompt] by blast
  obtain t1 where s: "send_prompt ag env prompt = (Inr (), t1)"
    using sent by (cases "send_prompt ag env prompt") auto
  obtain t2 where o: "open_created_task ag env = (Inr True, t2)"
    using opened by (cases "open_created_task ag env") auto
  obtain t3 where c: "complete_task_and_get_pr ag env
      = (Inr (captured_output ag env, captured_pr ag env), t3)"
    using complete_task_returns [OF pg, of env] by (cases "complete_task_and_get_pr ag env") auto
  have r: "fst (codex_execute_prompt ag cfg env prompt)
      = \<lparr> content = final_content (captured_output ag env) (captured_pr ag env), success = True,
          error_message = None \<rparr>"
    using s o c by (simp add: codex_execute_prompt_def thn_def ret_def)
  show ?thesis
    using r records_final [of "captured_output ag env" "captured_pr ag env" True None]
      best_effort_never_raise
    by simp
qed

lemma codex_page_run:
  "fst (send_prompt open_agent codex_page p) = Inr ()"
  "fst (open_created_task open_agent codex_page) = Inr True"
  "fst (send_prompt open_agent (codex_page\<lparr> output_primary := Inl (Exception ''page crashed''),
          view_pr_query := Inl (Exception ''page crashed'') \<rparr>) p) = Inr ()"
  "fst (open_created_task open_agent (codex_page\<lparr> output_primary := Inl (Exception ''page crashed''),
          view_pr_query := Inl (Exception ''page crashed'') \<rparr>)) = Inr True"
  by (simp_all add: send_prompt_def open_created_task_def wait_for_loading_complete_def
      wait_for_element_robust_def on_page_def lift_def robust_fill_input_def
      robust_click_element_def robust_fill_loop.simps robust_click_loop.simps fill_attempt_def
      click_attempt_def is_actionable_def act_defs open_agent_def codex_page_def
      found_def good_element_def effective_timeout_def split: prod.splits)

text \<open>
  The working Codex page, and the same page where the output query and the PR link query
  raise: both runs succeed, the second with nothing captured.
\<close>

theorem best_effort_steps_do_not_fail_the_task_witness:
  "success (fst (codex_execute_prompt open_agent demo_config codex_page ''fix the bug'')) = True
   \<and> records_output (fst (codex_execute_prompt open_agent demo_config codex_page ''fix the bug''))
   \<and> \<not> records_pr (fst (codex_execute_prompt open_agent demo_config codex_page ''fix the bug''))
   \<and> success (fst (codex_execute_prompt open_agent demo_config
         (codex_page\<lparr> output_primary := Inl (Exception ''page crashed''),
                      view_pr_query := Inl (Exception ''page crashed'') \<rparr>) ''fix the bug'')) = True
   \<and> \<not> records_output (fst (codex_execute_prompt open_agent demo_config
         (codex_page\<lparr> output_primary := Inl (Exception ''page crashed''),
                      view_pr_query := Inl (Exception ''page crashed'') \<rparr>) ''fix the bug''))"
proof -
  let ?bad = "codex_page\<lparr> output_primary := Inl (Exception ''page crashed''),
                      view_pr_query := Inl (Exception ''page crashed'') \<rparr>"
  have co: "captured_output open_agent codex_page = Some ''All done.''"
    by (simp add: captured_output_def extract_output_content_def on_page_def act_defs
        open_agent_def codex_page_def good_element_def strip_def is_space_def)
  have cp: "captured_pr open_agent codex_page = None"
    by (simp add: captured_pr_def extract_pr_url_def on_page_def act_defs
        open_agent_def codex_page_def)
  have bo: "captured_output open_agent ?bad = None"
    by (simp add: captured_output_def extract_output_content_def on_page_def act_defs
        open_agent_def codex_page_def)
  from best_effort_steps_do_not_fail_the_task [OF codex_page_run(1,2), where cfg = demo_config
      and prompt = "''fix the bug''"] co cp
  have a: "success (fst (codex_execute_prompt open_agent demo_config codex_page ''fix the bug'')) = True
   \<and> records_output (fst (codex_execute_prompt open_agent demo_config codex_page ''fix the bug''))
   \<and> \<not> records_pr (fst (codex_execute_prompt open_agent demo_config codex_page ''fix the bug''))"
    by (simp add: truthy_def)
  from best_effort_steps_do_not_fail_the_task [OF codex_page_run(3,4), where cfg = demo_config
      and prompt = "''fix the bug''"] bo
  have b: "success (fst (codex_execute_prompt open_agent demo_config ?bad ''fix the bug'')) = True
   \<and> \<not> records_output (fst (codex_execute_prompt open_agent demo_config ?bad ''fix the bug''))"
    by (simp add: truthy_def)
  from a b show ?thesis by blast
qed

text \<open>
  C8. After a setup in which authentication failed, the ready flag is down. The
  \<open>execute_prompt\<close> of \<open>WebAgent\<close> refuses at once, without touching the page. The
  \<open>execute_prompt\<close> of \<open>OpenAICodexAgent\<close>, which overrides it, does not test the flag: it
  fills the prompt, clicks the Code button and reports success.
\<close>

theorem codex_submits_without_setup:
  "is_browser_ready setup_failed_agent = False
   \<and> success (fst (codex_execute_prompt setup_failed_agent demo_config codex_page ''fix the bug''))
       = True
   \<and> take 16 (snd (codex_execute_prompt setup_failed_agent demo_config codex_page ''fix the bug''))
       = fill_calls PROMPT_INPUT ''fix the bug'' @ click_calls CODE_BUTTON
   \<and> web_execute_prompt setup_failed_agent demo_config demo_web_env ''fix the bug''
       = (\<lparr> content = [], success = False,
            error_message = Some ''Failed to execute prompt: Browser not ready. Call open_coding_interface() first.'' \<rparr>,
          [])"
  by (simp add: setup_failed_agent_eq codex_execute_prompt_def send_prompt_def
      open_created_task_def wait_for_loading_complete_def complete_task_and_get_pr_def
      focus_chat_input_def wait_for_completion_def extract_output_content_def try_create_pr_def
      extract_pr_url_def wait_for_element_robust_def on_page_def lift_def robust_fill_input_def
      robust_click_element_def robust_fill_loop.simps robust_click_loop.simps fill_attempt_def
      click_attempt_def is_actionable_def act_defs codex_page_def found_def good_element_def
      effective_timeout_def fill_calls_def click_calls_def web_execute_prompt_def exn_str_def
      final_content_def response_parts_def status_message_def truthy_def strip_def is_space_def
      live_handle_def split: prod.splits)

text \<open>The run that should have been refused reports success.\<close>

theorem codex_submits_without_setup_witness:
  "success (fst (codex_execute_prompt setup_failed_agent demo_config codex_page ''fix the bug''))
     = True"
  using codex_submits_without_setup by blast


















end
